theory Spec2Isabelle
  imports Main
begin

section \<open>Strings, slices, pointers and panics\<close>

text \<open>
  A Go \<open>string\<close> is a sequence of bytes; it is modelled as \<open>string\<close> (a list of 8-bit
  \<open>char\<close>s), so \<open>length\<close> is Go's \<open>len\<close>. A Go slice is a list: every empty slice the
  mapper builds is the \<open>nil\<close> slice (it starts from \<open>var xs []T\<close> and only appends), so
  the tests \<open>x != nil\<close> and \<open>len(x) == 0\<close> of the source are both tests against \<open>[]\<close>.
  A pointer that may be \<open>nil\<close> is an \<open>option\<close>.
\<close>

type_synonym byte = char

text \<open>The run-time panics the mapper can raise; none of them is recovered in the source.\<close>

datatype panic = NilPointerDereference | IndexOutOfRange | SliceBoundsOutOfRange

definition bindP :: "panic + 'a \<Rightarrow> ('a \<Rightarrow> panic + 'b) \<Rightarrow> panic + 'b" where
  "bindP m f = (case m of Inl p \<Rightarrow> Inl p | Inr x \<Rightarrow> f x)"

section \<open>Content type (\<open>contentType\<close>, src/marc.go and src/parsers/marc.go)\<close>

definition contentType :: "byte \<Rightarrow> string" where
  "contentType x =
     (if x = CHR ''c'' then ''Musical score''
      else if x = CHR ''d'' then ''Musical score''
      else if x = CHR ''e'' then ''Cartographic material''
      else if x = CHR ''f'' then ''Cartographic material''
      else if x = CHR ''g'' then ''Moving image''
      else if x = CHR ''i'' then ''Sound recording''
      else if x = CHR ''j'' then ''Sound recording''
      else if x = CHR ''k'' then ''Still image''
      else if x = CHR ''m'' then ''Computer file''
      else if x = CHR ''o'' then ''Kit''
      else if x = CHR ''p'' then ''Mixed materials''
      else if x = CHR ''r'' then ''Object''
      else ''Text'')"

text \<open>The same switch in package \<open>marc\<close> (src/parsers/marc.go).\<close>

definition parsers_contentType :: "byte \<Rightarrow> string" where
  "parsers_contentType x =
     (if x = CHR ''c'' then ''Musical score''
      else if x = CHR ''d'' then ''Musical score''
      else if x = CHR ''e'' then ''Cartographic material''
      else if x = CHR ''f'' then ''Cartographic material''
      else if x = CHR ''g'' then ''Moving image''
      else if x = CHR ''i'' then ''Sound recording''
      else if x = CHR ''j'' then ''Sound recording''
      else if x = CHR ''k'' then ''Still image''
      else if x = CHR ''m'' then ''Computer file''
      else if x = CHR ''o'' then ''Kit''
      else if x = CHR ''p'' then ''Mixed materials''
      else if x = CHR ''r'' then ''Object''
      else ''Text'')"

section \<open>Lookup tables (\<open>lookupCollection\<close>, \<open>lookupLocation\<close>, \<open>lookupFormat\<close>)\<close>

definition lookupCollection :: "string \<Rightarrow> string \<Rightarrow> string" where
  "lookupCollection col loc =
     (if col = ''STACK'' then ''Stacks''
      else if col = ''ATLCS'' then ''Atlas Case''
      else if col = ''AUDBK'' then ''Audiobooks''
      else if col = ''JRNAL'' then
        (if loc = ''HUM'' then ''Humanities Journals''
         else if loc = ''SCI'' then ''Science Journals''
         else ''Journal Collection'')
      else if col = ''BRWS'' then ''Browsery''
      else if col = ''CNSUS'' then ''Census Collection''
      else if col = ''CIRCD'' then ''Service Desk''
      else if col = ''DETEC'' then ''Detective Fiction Collection''
      else if col = ''EJ'' then ''Electronic Journal''
      else if col = ''GIS'' then ''GIS Collection''
      else if col = ''GOV'' then ''Government Documents''
      else if col = ''GRNVL'' then ''Graphic Novel Collection''
      else if col = ''HDCBX'' then ''Harvard Depository Boxed Items''
      else if col = ''ICPSR'' then ''ICPSR Codebooks''
      else if col = ''IMPLS'' then ''Impulse Borrowing Display''
      else if col = ''LSA4'' then ''Journal Collection''
      else if col = ''OVRSZ'' then ''Oversize Materials''
      else if col = ''LMTED'' then ''Limited Access Collection''
      else if col = ''MAPRM'' then ''Map Room''
      else if col = ''MFORM'' then ''Microforms''
      else if col = ''MEDIA'' then ''Media''
      else if col = ''NCIP'' then ''BLC ILB Item''
      else if col = ''NEWBK'' then ''Science New Books Display''
      else if col = ''NOLN1'' then ''Noncirculating Collection 1''
      else if col = ''NOLN2'' then ''Noncirculating Collection 2''
      else if col = ''NOLN3'' then ''Noncirculating Collection 3''
      else if col = ''OCC'' then ''Off Campus Collection''
      else if col = ''OCCBX'' then ''Off Campus Collection Boxed Items''
      else if col = ''OFFCT'' then ''Offsite Cataloging''
      else if col = ''PAMPH'' then ''Pamphlet Collection''
      else if col = ''PRECT'' then
        (if loc = ''HUM'' then ''Humanities Pre-cataloged Collection''
         else if loc = ''SCI'' then ''Science Pre-cataloged Collection''
         else ''Pre-cataloged Collection'')
      else if col = ''REF'' then ''Reference Collection''
      else if col = ''RSERV'' then ''Reserve Stacks''
      else if col = ''SWING'' then ''Basement Grammar Books''
      else if col = ''TRAVL'' then ''Travel Collection''
      else if col = ''UNCAT'' then ''Uncataloged Materials - see Librarian''
      else if col = ''UNKNW'' then ''Problems Materials - see Librarian''
      else if col = ''WSTM'' then ''Women in Science, Technology, and Medicine''
      else col)"

definition lookupLocation :: "string \<Rightarrow> string" where
  "lookupLocation loc =
     (if loc = ''HUM'' \<or> loc = ''RBR'' \<or> loc = ''SCI'' then ''Hayden Library''
      else if loc = ''MIT50'' then ''MIT Administrative Library''
      else if loc = ''ARC'' then ''Institute Archives''
      else if loc = ''ACQ'' then ''Institute Archives''
      else if loc = ''ENG'' then ''Barker Library''
      else if loc = ''CAT'' then ''Cataloging and Metadata Services''
      else if loc = ''DEW'' then ''Dewey Library''
      else if loc = ''DIR'' then ''Director's Office''
      else if loc = ''DOC'' then ''Document Services''
      else if loc = ''ILB'' then ''Interlibrary Borrowing''
      else if loc = ''LSA'' then ''Library Storage Annex''
      else if loc = ''NET'' then ''Internet Resource''
      else if loc = ''MUS'' then ''Lewis Music Library''
      else if loc = ''PHY'' then ''Physics Department Reading Room''
      else if loc = ''RTC'' then ''Rotch Library''
      else if loc = ''RVC'' then ''Rotch Visual Collections''
      else if loc = ''SPC'' then ''Space Cntr: Ask library staff''
      else if loc = ''OFFIC'' then ''Office delivery''
      else loc)"

text \<open>
  \<open>lookupFormat\<close> leaves \<open>t\<close> at its zero value, the empty string, when the location
  is \<open>Internet Resource\<close>; otherwise the switch has the default \<open>Print volume\<close>.
\<close>

definition lookupFormat :: "string \<Rightarrow> string \<Rightarrow> string" where
  "lookupFormat loc format_code =
     (if loc \<noteq> ''Internet Resource'' then
        (if format_code = ''BOOKS'' \<or> format_code = ''REGULAR'' then ''Print volume''
         else if format_code = ''ATLAS'' then ''Atlas''
         else if format_code = ''AUDIO'' \<or> format_code = ''AUDTAPE'' then ''Audio tape''
         else if format_code = ''CD'' then ''Compact disc''
         else if format_code = ''CDROM'' then ''CD-ROM''
         else if format_code = ''DSKETTE'' then ''Diskette''
         else if format_code = ''DVD'' then ''DVD-ROM''
         else if format_code = ''FICHE'' then ''Microfiche''
         else if format_code = ''FOLIO'' \<or> format_code = ''OVRSIZE'' then ''Oversized print volume''
         else if format_code = ''MAP'' then ''Map sheet''
         else if format_code = ''MFILM'' then ''Microfilm''
         else if format_code = ''RECORD'' then ''Audio record''
         else if format_code = ''SCORE'' then ''Musical score''
         else if format_code = ''SMALL'' then ''Undersized print volume''
         else if format_code = ''VDISC'' then ''Videodisc''
         else if format_code = ''VHS'' then ''VHS''
         else ''Print volume'')
      else '''')"

text \<open>The codes listed by the three switches, in source order.\<close>

definition collectionCodes :: "string list" where
  "collectionCodes =
     [''STACK'', ''ATLCS'', ''AUDBK'', ''JRNAL'', ''BRWS'', ''CNSUS'', ''CIRCD'', ''DETEC'',
      ''EJ'', ''GIS'', ''GOV'', ''GRNVL'', ''HDCBX'', ''ICPSR'', ''IMPLS'', ''LSA4'', ''OVRSZ'',
      ''LMTED'', ''MAPRM'', ''MFORM'', ''MEDIA'', ''NCIP'', ''NEWBK'', ''NOLN1'', ''NOLN2'',
      ''NOLN3'', ''OCC'', ''OCCBX'', ''OFFCT'', ''PAMPH'', ''PRECT'', ''REF'', ''RSERV'',
      ''SWING'', ''TRAVL'', ''UNCAT'', ''UNKNW'', ''WSTM'']"

definition locationCodes :: "string list" where
  "locationCodes =
     [''HUM'', ''RBR'', ''SCI'', ''MIT50'', ''ARC'', ''ACQ'', ''ENG'', ''CAT'', ''DEW'', ''DIR'',
      ''DOC'', ''ILB'', ''LSA'', ''NET'', ''MUS'', ''PHY'', ''RTC'', ''RVC'', ''SPC'', ''OFFIC'']"

definition formatCodes :: "string list" where
  "formatCodes =
     [''BOOKS'', ''REGULAR'', ''ATLAS'', ''AUDIO'', ''AUDTAPE'', ''CD'', ''CDROM'', ''DSKETTE'',
      ''DVD'', ''FICHE'', ''FOLIO'', ''OVRSIZE'', ''MAP'', ''MFILM'', ''RECORD'', ''SCORE'',
      ''SMALL'', ''VDISC'', ''VHS'']"

section \<open>Code translation (\<open>TranslateCodes\<close>)\<close>

text \<open>
  A Go \<open>map[string]string\<close> is a partial map; indexing it with a missing key yields the
  zero value, the empty string.
\<close>

type_synonym codeMap = "string \<rightharpoonup> string"

definition mapIndex :: "codeMap \<Rightarrow> string \<Rightarrow> string" where
  "mapIndex codeMap c = (case codeMap c of None \<Rightarrow> '''' | Some name \<Rightarrow> name)"

fun TranslateCodes_loop :: "string list \<Rightarrow> codeMap \<Rightarrow> string list \<Rightarrow> string list" where
  "TranslateCodes_loop [] codeMap names = names"
| "TranslateCodes_loop (c # recordCodes) codeMap names =
     (let name = mapIndex codeMap c in
      if name \<noteq> '''' then TranslateCodes_loop recordCodes codeMap (names @ [name])
      else TranslateCodes_loop recordCodes codeMap (names @ [c]))"

definition TranslateCodes :: "string list \<Rightarrow> codeMap \<Rightarrow> string list" where
  "TranslateCodes recordCodes codeMap = TranslateCodes_loop recordCodes codeMap []"

section \<open>Go library functions: \<open>strings\<close> and \<open>strconv\<close>\<close>

text \<open>\<open>strings.Join(a, sep)\<close>.\<close>

fun Join :: "string list \<Rightarrow> string \<Rightarrow> string" where
  "Join [] sep = []"
| "Join [a] sep = a"
| "Join (a # b # rest) sep = a @ sep @ Join (b # rest) sep"

text \<open>\<open>strings.Split(s, sep)\<close> for a separator of one byte: always at least one piece.\<close>

fun Split :: "string \<Rightarrow> byte \<Rightarrow> string list" where
  "Split [] sep = [[]]"
| "Split (c # s) sep =
     (if c = sep then [] # Split s sep
      else (case Split s sep of [] \<Rightarrow> [[c]] | w # ws \<Rightarrow> (c # w) # ws))"

text \<open>
  \<open>strings.Trim(s, cutset)\<close> for a cutset of ASCII bytes (the mapper passes \<open>" |"\<close>): a
  leading or trailing byte below 128 is a rune of its own, so the trimming is bytewise.
\<close>

definition Trim :: "string \<Rightarrow> string \<Rightarrow> string" where
  "Trim s cutset =
     rev (dropWhile (\<lambda>c. c \<in> set cutset) (rev (dropWhile (\<lambda>c. c \<in> set cutset) s)))"

text \<open>
  \<open>strings.TrimSpace\<close> removes the leading and trailing runes for which
  \<open>unicode.IsSpace\<close> holds. \<open>spaceRunes\<close> lists their UTF-8 encodings: tab, line feed,
  vertical tab, form feed, carriage return, space, U+0085, U+00A0, U+1680,
  U+2000 to U+200A, U+2028, U+2029, U+202F, U+205F and U+3000.
\<close>

definition spaceRunes :: "string list" where
  "spaceRunes = map (map char_of)
     [[9::nat], [10], [11], [12], [13], [32], [194, 133], [194, 160], [225, 154, 128],
      [226, 128, 128], [226, 128, 129], [226, 128, 130], [226, 128, 131], [226, 128, 132],
      [226, 128, 133], [226, 128, 134], [226, 128, 135], [226, 128, 136], [226, 128, 137],
      [226, 128, 138], [226, 128, 168], [226, 128, 169], [226, 128, 175], [226, 129, 159],
      [227, 128, 128]]"

fun TrimLeftSpace :: "string \<Rightarrow> string" where
  "TrimLeftSpace (a # b # c # s) =
     (if [a] \<in> set spaceRunes then TrimLeftSpace (b # c # s)
      else if [a, b] \<in> set spaceRunes then TrimLeftSpace (c # s)
      else if [a, b, c] \<in> set spaceRunes then TrimLeftSpace s
      else a # b # c # s)"
| "TrimLeftSpace [a, b] =
     (if [a] \<in> set spaceRunes then TrimLeftSpace [b]
      else if [a, b] \<in> set spaceRunes then []
      else [a, b])"
| "TrimLeftSpace [a] = (if [a] \<in> set spaceRunes then [] else [a])"
| "TrimLeftSpace [] = []"

text \<open>The same from the end, on the reversed string.\<close>

fun TrimRightSpace_rev :: "string \<Rightarrow> string" where
  "TrimRightSpace_rev (c # b # a # s) =
     (if [c] \<in> set spaceRunes then TrimRightSpace_rev (b # a # s)
      else if [b, c] \<in> set spaceRunes then TrimRightSpace_rev (a # s)
      else if [a, b, c] \<in> set spaceRunes then TrimRightSpace_rev s
      else c # b # a # s)"
| "TrimRightSpace_rev [c, b] =
     (if [c] \<in> set spaceRunes then TrimRightSpace_rev [b]
      else if [b, c] \<in> set spaceRunes then []
      else [c, b])"
| "TrimRightSpace_rev [c] = (if [c] \<in> set spaceRunes then [] else [c])"
| "TrimRightSpace_rev [] = []"

definition TrimSpace :: "string \<Rightarrow> string" where
  "TrimSpace s = rev (TrimRightSpace_rev (rev (TrimLeftSpace s)))"

text \<open>
  \<open>strconv.Atoi(s)\<close> is \<open>ParseInt(s, 10, 0)\<close> with \<open>int\<close> of 64 bits: an optional sign,
  then decimal digits. On a syntax error the value is 0; on a range error it is the
  nearest bound. Both come back with an error, which the mapper discards.
\<close>

datatype numError = ErrSyntax | ErrRange

definition isDigit :: "byte \<Rightarrow> bool" where
  "isDigit c \<longleftrightarrow> 48 \<le> (of_char c :: int) \<and> (of_char c :: int) \<le> 57"

text \<open>
  The loop of \<open>ParseUint\<close> over the digits: \<open>n\<close> is an unsigned 64-bit value, written
  as an \<open>int\<close> with the overflow tests of the library spelled out.
\<close>

fun ParseUint_loop :: "int \<Rightarrow> string \<Rightarrow> int \<times> numError option" where
  "ParseUint_loop n [] = (n, None)"
| "ParseUint_loop n (c # s) =
     (if \<not> isDigit c then (0, Some ErrSyntax)
      else if n \<ge> (2 ^ 64 - 1) div 10 + 1 then (2 ^ 64 - 1, Some ErrRange)
      else (let n1 = n * 10 + (of_char c - 48) in
            if n1 > 2 ^ 64 - 1 then (2 ^ 64 - 1, Some ErrRange)
            else ParseUint_loop n1 s))"

definition ParseUint :: "string \<Rightarrow> int \<times> numError option" where
  "ParseUint s = (if s = [] then (0, Some ErrSyntax) else ParseUint_loop 0 s)"

definition Atoi :: "string \<Rightarrow> int \<times> numError option" where
  "Atoi s =
     (if s = [] then (0, Some ErrSyntax)
      else
        (let neg = (hd s = CHR ''-'');
             digits = (if hd s = CHR ''+'' \<or> hd s = CHR ''-'' then tl s else s);
             (un, err) = ParseUint digits
         in if err = Some ErrSyntax then (0, err)
            else if \<not> neg \<and> un \<ge> 2 ^ 63 then (2 ^ 63 - 1, Some ErrRange)
            else if neg \<and> un > 2 ^ 63 then (- (2 ^ 63), Some ErrRange)
            else (if neg then - un else un, None)))"

text \<open>Addition of two 64-bit \<open>int\<close>s wraps around.\<close>

definition add_int64 :: "int \<Rightarrow> int \<Rightarrow> int" where
  "add_int64 a b = (a + b + 2 ^ 63) mod 2 ^ 64 - 2 ^ 63"

text \<open>The slice expression \<open>v[lo:hi]\<close> on a string panics unless \<open>0 \<le> lo \<le> hi \<le> len(v)\<close>.\<close>

definition sliceString :: "string \<Rightarrow> int \<Rightarrow> int \<Rightarrow> panic + string" where
  "sliceString v lo hi =
     (if 0 \<le> lo \<and> lo \<le> hi \<and> hi \<le> int (length v)
      then Inr (take (nat (hi - lo)) (drop (nat lo) v))
      else Inl SliceBoundsOutOfRange)"

text \<open>
  The conversion \<open>string(b)\<close> of a byte: the UTF-8 encoding of the code point \<open>b\<close>, one
  byte below 128 and two bytes from 128 on.
\<close>

definition string_of_byte :: "byte \<Rightarrow> string" where
  "string_of_byte b =
     (if (of_char b :: nat) < 128 then [b]
      else [char_of (192 + (of_char b :: nat) div 64), char_of (128 + (of_char b :: nat) mod 64)])"

section \<open>The decoded record and the ruleset\<close>

text \<open>
  The decoder (package \<open>fml\<close>) is an external library. A decoded record is modelled by
  what the mapper reads from it: the control number, the type byte of the leader, the
  answer of \<open>Filter\<close> to a query (tag followed by subfield codes: one list of subfield
  values per occurrence of the tag) and the answer of \<open>DataField\<close> to a tag (the data
  fields with that tag, in record order). An indicator is a byte, which \<open>getLinks\<close>
  converts with \<open>string(...)\<close> before it compares it.
\<close>

record fml_SubField =
  SubField_Code :: string
  SubField_Value :: string

record fml_DataField =
  DataField_Indicator1 :: byte
  DataField_Indicator2 :: byte
  DataField_SubFields :: "fml_SubField list"

record fml_Record =
  ControlNum :: string
  Leader_Type :: byte
  Filter :: "string \<Rightarrow> string list list"
  DataField :: "string \<Rightarrow> fml_DataField list"

text \<open>\<open>Field\<close> and \<open>Rule\<close>; a ruleset is a \<open>[]*Rule\<close>, a rule's fields a \<open>[]*Field\<close>.\<close>

record Field =
  Field_Tag :: string
  Field_Subfields :: string
  Field_Bytes :: string
  Field_Kind :: string

record Rule =
  Rule_Label :: string
  Rule_Array :: bool
  Rule_Fields :: "Field option list"

section \<open>The normalized record\<close>

record Contributor =
  Contributor_Kind :: string
  Contributor_Value :: "string list"

record RelatedItem =
  RelatedItem_Kind :: string
  RelatedItem_Value :: "string list"

record Link =
  Link_Kind :: string
  Link_Text :: string
  Link_URL :: string
  Link_Restrictions :: string

text \<open>
  \<open>Holding\<close> has the fields of the composite literal in \<open>getHoldings\<close> and the \<open>Format\<close>
  assigned after it.
\<close>

record Holding =
  Holding_Location :: string
  Holding_Collection :: string
  Holding_CallNumber :: string
  Holding_Summary :: string
  Holding_Notes :: string
  Holding_Format :: string

record Record =
  Identifier :: string
  Source :: string
  SourceLink :: string
  Title :: string
  AlternateTitles :: "string list"
  Creator :: "string list"
  Contributor :: "Contributor list"
  Subject :: "string list"
  Isbn :: "string list"
  Issn :: "string list"
  Doi :: "string list"
  OclcNumber :: "string list"
  Lccn :: string
  Country :: string
  Language :: "string list"
  PublicationDate :: string
  ContentType :: string
  CallNumber :: "string list"
  Edition :: string
  Imprint :: "string list"
  PhysicalDescription :: string
  PublicationFrequency :: "string list"
  Numbering :: string
  Notes :: "string list"
  Contents :: "string list"
  Summary :: "string list"
  Format :: "string list"
  LiteraryForm :: string
  RelatedPlace :: "string list"
  InBibliography :: "string list"
  RelatedItems :: "RelatedItem list"
  Links :: "Link list"
  Holdings :: "Holding list"

text \<open>The zero value \<open>Record{}\<close>.\<close>

definition emptyRecord :: Record where
  "emptyRecord =
     \<lparr>Identifier = '''', Source = '''', SourceLink = '''', Title = '''', AlternateTitles = [],
      Creator = [], Contributor = [], Subject = [], Isbn = [], Issn = [], Doi = [],
      OclcNumber = [], Lccn = '''', Country = '''', Language = [], PublicationDate = '''',
      ContentType = '''', CallNumber = [], Edition = '''', Imprint = [],
      PhysicalDescription = '''', PublicationFrequency = [], Numbering = '''', Notes = [],
      Contents = [], Summary = [], Format = [], LiteraryForm = '''', RelatedPlace = [],
      InBibliography = [], RelatedItems = [], Links = [], Holdings = []\<rparr>"

section \<open>The rule engine (\<open>getRules\<close>, \<open>filter\<close>, \<open>extractData\<close>, \<open>applyRule\<close>)\<close>

fun stringInSlice :: "string \<Rightarrow> string list \<Rightarrow> bool" where
  "stringInSlice a [] = False"
| "stringInSlice a (b # list) = (if b = a then True else stringInSlice a list)"

text \<open>
  \<open>getRules\<close> scans the ruleset for the first rule with the label and returns \<open>nil\<close>
  when there is none. Reading \<open>v.Label\<close> through a \<open>nil\<close> entry of the ruleset panics.
\<close>

fun getRules :: "Rule option list \<Rightarrow> string \<Rightarrow> panic + Rule option" where
  "getRules [] label = Inr None"
| "getRules (v # rules) label =
     (case v of
        None \<Rightarrow> Inl NilPointerDereference
      | Some r \<Rightarrow> if Rule_Label r = label then Inr (Some r) else getRules rules label)"

text \<open>
  \<open>filter\<close> (named \<open>marc_filter\<close> here): the loop over the occurrences that the decoder
  returns. With a byte range, \<open>f[1]\<close> panics when the range has no colon, the errors of
  \<open>Atoi\<close> are discarded, and the slice expression panics when the bounds do not fit.
\<close>

fun filter_loop :: "Field \<Rightarrow> string list list \<Rightarrow> string list \<Rightarrow> panic + string list" where
  "filter_loop field [] stuff = Inr stuff"
| "filter_loop field (f # values) stuff =
     (let v = Join f '' '' in
      if Field_Bytes field \<noteq> '''' then
        (let f' = Split (Field_Bytes field) CHR '':'';
             first = fst (Atoi (f' ! 0))
         in if length f' < 2 then Inl IndexOutOfRange
            else
              (let take = fst (Atoi (f' ! 1)) in
               case sliceString v first (add_int64 first take) of
                 Inl p \<Rightarrow> Inl p
               | Inr v' \<Rightarrow> filter_loop field values (stuff @ [v'])))
      else filter_loop field values (stuff @ [v]))"

definition marc_filter :: "fml_Record \<Rightarrow> Field option \<Rightarrow> panic + string list" where
  "marc_filter fmlRecord field =
     (case field of
        None \<Rightarrow> Inl NilPointerDereference
      | Some fld \<Rightarrow>
          filter_loop fld (Filter fmlRecord (Field_Tag fld @ Field_Subfields fld)) [])"

text \<open>\<open>extractData\<close>: the inner loop over the values of one field specification ...\<close>

fun extractData_values :: "string list \<Rightarrow> string list \<Rightarrow> string list" where
  "extractData_values [] field = field"
| "extractData_values (y # f) field =
     (if \<not> stringInSlice y field then extractData_values f (field @ [y])
      else extractData_values f field)"

text \<open>... the outer loop over the field specifications of the rule ...\<close>

fun extractData_loop :: "Field option list \<Rightarrow> fml_Record \<Rightarrow> string list \<Rightarrow> panic + string list" where
  "extractData_loop [] fmlRecord field = Inr field"
| "extractData_loop (r # rest) fmlRecord field =
     (case marc_filter fmlRecord r of
        Inl p \<Rightarrow> Inl p
      | Inr f \<Rightarrow> extractData_loop rest fmlRecord (extractData_values f field))"

text \<open>... and the function; \<open>rule.Fields\<close> panics on the \<open>nil\<close> rule.\<close>

definition extractData :: "Rule option \<Rightarrow> fml_Record \<Rightarrow> panic + string list" where
  "extractData rule fmlRecord =
     (case rule of
        None \<Rightarrow> Inl NilPointerDereference
      | Some ru \<Rightarrow> extractData_loop (Rule_Fields ru) fmlRecord [])"

definition applyRule :: "fml_Record \<Rightarrow> Rule option list \<Rightarrow> string \<Rightarrow> panic + string list" where
  "applyRule fmlRecord rules field =
     bindP (getRules rules field) (\<lambda>recordFieldRule. extractData recordFieldRule fmlRecord)"

section \<open>Derived fields\<close>

fun getContributors_loop :: "Field option list \<Rightarrow> fml_Record \<Rightarrow> Contributor list \<Rightarrow> panic + Contributor list" where
  "getContributors_loop [] fmlRecord c = Inr c"
| "getContributors_loop (r # rest) fmlRecord c =
     (case r of
        None \<Rightarrow> Inl NilPointerDereference
      | Some fld \<Rightarrow>
          (case marc_filter fmlRecord r of
             Inl p \<Rightarrow> Inl p
           | Inr val \<Rightarrow>
               (let y = \<lparr>Contributor_Kind = Field_Kind fld, Contributor_Value = val\<rparr> in
                if Contributor_Value y \<noteq> [] then getContributors_loop rest fmlRecord (c @ [y])
                else getContributors_loop rest fmlRecord c)))"

definition getContributors :: "fml_Record \<Rightarrow> Rule option list \<Rightarrow> string \<Rightarrow> panic + Contributor list" where
  "getContributors fmlRecord rules field =
     bindP (getRules rules field) (\<lambda>recordFieldRule.
       case recordFieldRule of
         None \<Rightarrow> Inl NilPointerDereference
       | Some ru \<Rightarrow> getContributors_loop (Rule_Fields ru) fmlRecord [])"

fun getRelatedItems_loop :: "Field option list \<Rightarrow> fml_Record \<Rightarrow> RelatedItem list \<Rightarrow> panic + RelatedItem list" where
  "getRelatedItems_loop [] fmlRecord c = Inr c"
| "getRelatedItems_loop (r # rest) fmlRecord c =
     (case r of
        None \<Rightarrow> Inl NilPointerDereference
      | Some fld \<Rightarrow>
          (case marc_filter fmlRecord r of
             Inl p \<Rightarrow> Inl p
           | Inr val \<Rightarrow>
               (let y = \<lparr>RelatedItem_Kind = Field_Kind fld, RelatedItem_Value = val\<rparr> in
                if RelatedItem_Value y \<noteq> [] then getRelatedItems_loop rest fmlRecord (c @ [y])
                else getRelatedItems_loop rest fmlRecord c)))"

definition getRelatedItems :: "fml_Record \<Rightarrow> Rule option list \<Rightarrow> string \<Rightarrow> panic + RelatedItem list" where
  "getRelatedItems fmlRecord rules field =
     bindP (getRules rules field) (\<lambda>recordFieldRule.
       case recordFieldRule of
         None \<Rightarrow> Inl NilPointerDereference
       | Some ru \<Rightarrow> getRelatedItems_loop (Rule_Fields ru) fmlRecord [])"

definition literaryForm :: "string list \<Rightarrow> string" where
  "literaryForm x =
     (if x = [] then ''''
      else if x ! 0 = ''0'' \<or> x ! 0 = ''s'' \<or> x ! 0 = ''e'' then ''nonfiction''
      else ''fiction'')"

fun subfieldValue :: "fml_SubField list \<Rightarrow> string \<Rightarrow> string" where
  "subfieldValue [] code = ''''"
| "subfieldValue (x # subs) code =
     (if SubField_Code x = code then SubField_Value x else subfieldValue subs code)"

fun getLinks_loop :: "fml_DataField list \<Rightarrow> Link list \<Rightarrow> Link list" where
  "getLinks_loop [] links = links"
| "getLinks_loop (f # marc856) links =
     (let ind1 = string_of_byte (DataField_Indicator1 f);
          ind2 = string_of_byte (DataField_Indicator2 f)
      in if ind1 = ''4'' \<and> (ind2 = ''0'' \<or> ind2 = ''1'') then
           (let link = \<lparr>Link_Kind = subfieldValue (DataField_SubFields f) ''3'',
                        Link_Text = subfieldValue (DataField_SubFields f) ''y'',
                        Link_URL = subfieldValue (DataField_SubFields f) ''u'',
                        Link_Restrictions = subfieldValue (DataField_SubFields f) ''z''\<rparr>;
                link = (if Link_Kind link = '''' then link\<lparr>Link_Kind := ''unknown''\<rparr> else link)
            in getLinks_loop marc856 (links @ [link]))
         else getLinks_loop marc856 links)"

definition getLinks :: "fml_Record \<Rightarrow> Link list" where
  "getLinks fmlRecord =
     (let marc856 = DataField fmlRecord ''856'' in
      if length marc856 = 0 then [] else getLinks_loop marc856 [])"

text \<open>
  \<open>getHoldings\<close> indexes \<open>subfieldCodes\<close> at 0 to 4, and at 5 when the tag is not
  \<open>866\<close>; an index past the end panics.
\<close>

fun getHoldings_loop :: "fml_DataField list \<Rightarrow> string \<Rightarrow> string list \<Rightarrow> Holding list \<Rightarrow> panic + Holding list" where
  "getHoldings_loop [] tag subfieldCodes holdings = Inr holdings"
| "getHoldings_loop (f # df) tag subfieldCodes holdings =
     (if length subfieldCodes < 5 then Inl IndexOutOfRange
      else
        (let holding =
               \<lparr>Holding_Location = lookupLocation (subfieldValue (DataField_SubFields f) (subfieldCodes ! 0)),
                Holding_Collection = lookupCollection
                  (subfieldValue (DataField_SubFields f) (subfieldCodes ! 1))
                  (subfieldValue (DataField_SubFields f) (subfieldCodes ! 0)),
                Holding_CallNumber = subfieldValue (DataField_SubFields f) (subfieldCodes ! 2),
                Holding_Summary = subfieldValue (DataField_SubFields f) (subfieldCodes ! 3),
                Holding_Notes = subfieldValue (DataField_SubFields f) (subfieldCodes ! 4),
                Holding_Format = ''''\<rparr>
         in if tag = ''866'' then
              getHoldings_loop df tag subfieldCodes
                (holdings @ [holding\<lparr>Holding_Format := ''Print volume''\<rparr>])
            else if length subfieldCodes < 6 then Inl IndexOutOfRange
            else
              getHoldings_loop df tag subfieldCodes
                (holdings @ [holding\<lparr>Holding_Format :=
                   lookupFormat (Holding_Location holding)
                     (subfieldValue (DataField_SubFields f) (subfieldCodes ! 5))\<rparr>])))"

definition getHoldings :: "fml_Record \<Rightarrow> string \<Rightarrow> string list \<Rightarrow> panic + Holding list" where
  "getHoldings fmlRecord tag subfieldCodes =
     (let df = DataField fmlRecord tag in
      if length df = 0 then Inr [] else getHoldings_loop df tag subfieldCodes [])"

text \<open>The last loop of \<open>marcToRecord\<close>: the formats of the holdings, each once.\<close>

fun Format_loop :: "Holding list \<Rightarrow> string list \<Rightarrow> string list" where
  "Format_loop [] fmt = fmt"
| "Format_loop (h # holdings) fmt =
     (if \<not> stringInSlice (Holding_Format h) fmt then Format_loop holdings (fmt @ [Holding_Format h])
      else Format_loop holdings fmt)"

section \<open>The record mapper (\<open>marcToRecord\<close>) and the producer (\<open>parse\<close>, \<open>Generate\<close>)\<close>

text \<open>
  \<open>marcToRecord\<close> returns the record and an error (\<open>None\<close> is \<open>nil\<close>), or panics. The
  statements are those of the source, in order. A guarded assignment
  \<open>if v != nil { r.X = v[0] }\<close> writes \<open>v[0]\<close> or leaves the zero value that \<open>r.X\<close> still
  holds at that point.
\<close>

definition marcToRecord ::
  "fml_Record \<Rightarrow> Rule option list \<Rightarrow> codeMap \<Rightarrow> codeMap \<Rightarrow> panic + (Record \<times> string option)" where
  "marcToRecord fmlRecord rules languageCodes countryCodes =
     (let r = emptyRecord;
          r = r\<lparr>Identifier := ControlNum fmlRecord\<rparr>;
          r = r\<lparr>Source := ''MIT Aleph''\<rparr>;
          r = r\<lparr>SourceLink := ''https://library.mit.edu/item/'' @ Identifier r\<rparr>
      in
      bindP (applyRule fmlRecord rules ''oclc_number'') (\<lambda>oclc.
      let r = r\<lparr>OclcNumber := oclc\<rparr> in
      bindP (applyRule fmlRecord rules ''lccn'') (\<lambda>lccn.
      let r = r\<lparr>Lccn := (if lccn \<noteq> [] then TrimSpace (lccn ! 0) else '''')\<rparr> in
      bindP (applyRule fmlRecord rules ''title'') (\<lambda>title.
      if title = [] then
        Inr (r, Some (''Record '' @ Identifier r @ '' has no title, check validity''))
      else
      let r = r\<lparr>Title := title ! 0\<rparr> in
      bindP (applyRule fmlRecord rules ''alternate_titles'') (\<lambda>alternate_titles.
      let r = r\<lparr>AlternateTitles := alternate_titles\<rparr> in
      bindP (applyRule fmlRecord rules ''creators'') (\<lambda>creators.
      let r = r\<lparr>Creator := creators\<rparr> in
      bindP (getContributors fmlRecord rules ''contributors'') (\<lambda>contributors.
      let r = r\<lparr>Contributor := contributors\<rparr> in
      bindP (applyRule fmlRecord rules ''related_place'') (\<lambda>related_place.
      let r = r\<lparr>RelatedPlace := related_place\<rparr> in
      bindP (getRelatedItems fmlRecord rules ''related_items'') (\<lambda>related_items.
      let r = r\<lparr>RelatedItems := related_items\<rparr> in
      bindP (applyRule fmlRecord rules ''in_bibliography'') (\<lambda>in_bibliography.
      let r = r\<lparr>InBibliography := in_bibliography\<rparr> in
      bindP (applyRule fmlRecord rules ''subjects'') (\<lambda>subjects.
      let r = r\<lparr>Subject := subjects\<rparr> in
      bindP (applyRule fmlRecord rules ''isbns'') (\<lambda>isbns.
      let r = r\<lparr>Isbn := isbns\<rparr> in
      bindP (applyRule fmlRecord rules ''issns'') (\<lambda>issns.
      let r = r\<lparr>Issn := issns\<rparr> in
      bindP (applyRule fmlRecord rules ''dois'') (\<lambda>dois.
      let r = r\<lparr>Doi := dois\<rparr> in
      bindP (applyRule fmlRecord rules ''place_of_publication'') (\<lambda>country.
      let r = r\<lparr>Country :=
                (if country \<noteq> [] then
                   TranslateCodes (country[0 := Trim (country ! 0) '' |'']) countryCodes ! 0
                 else '''')\<rparr> in
      bindP (applyRule fmlRecord rules ''languages'') (\<lambda>languages.
      let r = r\<lparr>Language := languages\<rparr>;
          r = r\<lparr>Language := TranslateCodes (Language r) languageCodes\<rparr> in
      bindP (applyRule fmlRecord rules ''call_numbers'') (\<lambda>call_numbers.
      let r = r\<lparr>CallNumber := call_numbers\<rparr> in
      bindP (applyRule fmlRecord rules ''edition'') (\<lambda>edition.
      let r = r\<lparr>Edition := (if edition \<noteq> [] then edition ! 0 else '''')\<rparr> in
      bindP (applyRule fmlRecord rules ''imprint'') (\<lambda>imprint.
      let r = r\<lparr>Imprint := imprint\<rparr> in
      bindP (applyRule fmlRecord rules ''physical_description'') (\<lambda>description.
      let r = r\<lparr>PhysicalDescription := (if description \<noteq> [] then description ! 0 else '''')\<rparr> in
      bindP (applyRule fmlRecord rules ''publication_frequency'') (\<lambda>publication_frequency.
      let r = r\<lparr>PublicationFrequency := publication_frequency\<rparr> in
      bindP (applyRule fmlRecord rules ''publication_date'') (\<lambda>date.
      let r = r\<lparr>PublicationDate := (if date \<noteq> [] then date ! 0 else '''')\<rparr> in
      bindP (applyRule fmlRecord rules ''numbering'') (\<lambda>numbering.
      let r = r\<lparr>Numbering := (if numbering \<noteq> [] then numbering ! 0 else '''')\<rparr> in
      bindP (applyRule fmlRecord rules ''notes'') (\<lambda>notes.
      let r = r\<lparr>Notes := notes\<rparr> in
      bindP (applyRule fmlRecord rules ''contents'') (\<lambda>contents.
      let r = r\<lparr>Contents := contents\<rparr> in
      bindP (applyRule fmlRecord rules ''summary'') (\<lambda>summary.
      let r = r\<lparr>Summary := summary\<rparr>;
          r = r\<lparr>ContentType := contentType (Leader_Type fmlRecord)\<rparr> in
      bindP (applyRule fmlRecord rules ''literary_form'') (\<lambda>lf.
      let r = r\<lparr>LiteraryForm := literaryForm lf\<rparr>;
          r = r\<lparr>Links := getLinks fmlRecord\<rparr> in
      bindP (getHoldings fmlRecord ''866'' [''b'', ''c'', ''h'', ''a'', ''z'']) (\<lambda>holdings.
      bindP (if length holdings = 0
             then getHoldings fmlRecord ''852'' [''b'', ''c'', ''h'', ''a'', ''z'', ''k'']
             else Inr holdings) (\<lambda>holdings.
      let r = r\<lparr>Holdings := holdings\<rparr>;
          r = r\<lparr>Format := Format_loop (Holdings r) (Format r)\<rparr>
      in Inr (r, None))))))))))))))))))))))))))))))"

text \<open>
  The decoder's iterator hands \<open>parse\<close> one result per raw record: a decoded record or
  a decode error. \<open>parse\<close> sends a record on the channel when \<open>marcToRecord\<close> returns no
  error, and only logs otherwise. A panic is not recovered and ends the run: nothing
  more is sent. The run is the sequence of records sent and the panic, if any.
\<close>

datatype decoded = DecodeError | Decoded fml_Record

record run =
  sent :: "Record list"
  panicked :: "panic option"

fun parse :: "Rule option list \<Rightarrow> codeMap \<Rightarrow> codeMap \<Rightarrow> decoded list \<Rightarrow> run" where
  "parse rules languageCodes countryCodes [] = \<lparr>sent = [], panicked = None\<rparr>"
| "parse rules languageCodes countryCodes (DecodeError # mr) =
     parse rules languageCodes countryCodes mr"
| "parse rules languageCodes countryCodes (Decoded record # mr) =
     (case marcToRecord record rules languageCodes countryCodes of
        Inl p \<Rightarrow> \<lparr>sent = [], panicked = Some p\<rparr>
      | Inr (r, Some err) \<Rightarrow> parse rules languageCodes countryCodes mr
      | Inr (r, None) \<Rightarrow>
          (let rest = parse rules languageCodes countryCodes mr
           in rest\<lparr>sent := r # sent rest\<rparr>))"

text \<open>
  \<open>Generate\<close> loads the ruleset and the two code tables and starts \<open>parse\<close>. An error
  of \<open>RetrieveRules\<close> is dumped and the run goes on with the rules it returned; nothing
  checks the labels of the ruleset. The loaded values are parameters here:
  \<open>rulesLoaded\<close> is the pair that \<open>RetrieveRules\<close> returned.
\<close>

definition Generate ::
  "Rule option list \<times> string option \<Rightarrow> codeMap \<Rightarrow> codeMap \<Rightarrow> decoded list \<Rightarrow> run" where
  "Generate rulesLoaded languageCodes countryCodes marcfile =
     (let rules = fst rulesLoaded in parse rules languageCodes countryCodes marcfile)"

section \<open>Definitions used to state the properties\<close>

text \<open>The leader bytes that the switch of \<open>contentType\<close> lists.\<close>

definition contentCodes :: "byte list" where
  "contentCodes = ''cdefgijkmopr''"



text \<open>
  De-duplication in the words of the specification: every value once, at the place of
  its first occurrence.
\<close>

primrec dedupFirst :: "'a list \<Rightarrow> 'a list" where
  "dedupFirst [] = []"
| "dedupFirst (x # xs) = x # filter (\<lambda>y. y \<noteq> x) (dedupFirst xs)"

text \<open>
  The bounds that \<open>filter\<close> computes from a byte range \<open>start:length\<close>, the test of the
  slice expression and the bytes it selects.
\<close>

definition rangeBounds :: "string \<Rightarrow> int \<times> int" where
  "rangeBounds b =
     (let f = Split b CHR '':''; first = fst (Atoi (f ! 0)); take = fst (Atoi (f ! 1))
      in (first, add_int64 first take))"

definition inBounds :: "string \<Rightarrow> int \<times> int \<Rightarrow> bool" where
  "inBounds v b \<longleftrightarrow> 0 \<le> fst b \<and> fst b \<le> snd b \<and> snd b \<le> int (length v)"

definition byteRange :: "string \<Rightarrow> int \<times> int \<Rightarrow> string" where
  "byteRange v b = take (nat (snd b - fst b)) (drop (nat (fst b)) v)"

text \<open>The holding that one iteration of the loop of \<open>getHoldings\<close> appends.\<close>

definition holdingOf :: "string \<Rightarrow> string list \<Rightarrow> fml_DataField \<Rightarrow> Holding" where
  "holdingOf tag subfieldCodes f =
     \<lparr>Holding_Location = lookupLocation (subfieldValue (DataField_SubFields f) (subfieldCodes ! 0)),
      Holding_Collection = lookupCollection
        (subfieldValue (DataField_SubFields f) (subfieldCodes ! 1))
        (subfieldValue (DataField_SubFields f) (subfieldCodes ! 0)),
      Holding_CallNumber = subfieldValue (DataField_SubFields f) (subfieldCodes ! 2),
      Holding_Summary = subfieldValue (DataField_SubFields f) (subfieldCodes ! 3),
      Holding_Notes = subfieldValue (DataField_SubFields f) (subfieldCodes ! 4),
      Holding_Format =
        (if tag = ''866'' then ''Print volume''
         else lookupFormat
           (lookupLocation (subfieldValue (DataField_SubFields f) (subfieldCodes ! 0)))
           (subfieldValue (DataField_SubFields f) (subfieldCodes ! 5)))\<rparr>"

text \<open>The two calls of \<open>getHoldings\<close> in \<open>marcToRecord\<close> and the holdings it keeps.\<close>

definition primaryHoldings :: "fml_Record \<Rightarrow> panic + Holding list" where
  "primaryHoldings rec = getHoldings rec ''866'' [''b'', ''c'', ''h'', ''a'', ''z'']"

definition fallbackHoldings :: "fml_Record \<Rightarrow> panic + Holding list" where
  "fallbackHoldings rec = getHoldings rec ''852'' [''b'', ''c'', ''h'', ''a'', ''z'', ''k'']"

definition docHoldings :: "fml_Record \<Rightarrow> Holding list" where
  "docHoldings rec =
     (if DataField rec ''866'' = []
      then map (holdingOf ''852'' [''b'', ''c'', ''h'', ''a'', ''z'', ''k'']) (DataField rec ''852'')
      else map (holdingOf ''866'' [''b'', ''c'', ''h'', ''a'', ''z'']) (DataField rec ''866''))"

text \<open>
  The record that \<open>marcToRecord\<close> has built when it returns without error, as a function
  of the values that the rule applications returned.
\<close>

definition builtRecord ::
  "fml_Record \<Rightarrow> codeMap \<Rightarrow> codeMap \<Rightarrow> string list \<Rightarrow> string list \<Rightarrow> string list \<Rightarrow> string list \<Rightarrow>
   string list \<Rightarrow> Contributor list \<Rightarrow> string list \<Rightarrow> RelatedItem list \<Rightarrow> string list \<Rightarrow>
   string list \<Rightarrow> string list \<Rightarrow> string list \<Rightarrow> string list \<Rightarrow> string list \<Rightarrow> string list \<Rightarrow>
   string list \<Rightarrow> string list \<Rightarrow> string list \<Rightarrow> string list \<Rightarrow> string list \<Rightarrow> string list \<Rightarrow>
   string list \<Rightarrow> string list \<Rightarrow> string list \<Rightarrow> string list \<Rightarrow> string list \<Rightarrow> Holding list \<Rightarrow>
   Record" where
  "builtRecord rec lc cc oclc lccn title alternate_titles creators contributors related_place
      related_items in_bibliography subjects isbns issns dois country languages call_numbers
      edition imprint description publication_frequency date numbering notes contents summary
      lf holdings =
     \<lparr>Identifier = ControlNum rec, Source = ''MIT Aleph'',
      SourceLink = ''https://library.mit.edu/item/'' @ ControlNum rec,
      Title = title ! 0, AlternateTitles = alternate_titles, Creator = creators,
      Contributor = contributors, Subject = subjects, Isbn = isbns, Issn = issns, Doi = dois,
      OclcNumber = oclc, Lccn = (if lccn \<noteq> [] then TrimSpace (lccn ! 0) else ''''),
      Country = (if country \<noteq> [] then
                   TranslateCodes (country[0 := Trim (country ! 0) '' |'']) cc ! 0
                 else ''''),
      Language = TranslateCodes languages lc,
      PublicationDate = (if date \<noteq> [] then date ! 0 else ''''),
      ContentType = contentType (Leader_Type rec), CallNumber = call_numbers,
      Edition = (if edition \<noteq> [] then edition ! 0 else ''''), Imprint = imprint,
      PhysicalDescription = (if description \<noteq> [] then description ! 0 else ''''),
      PublicationFrequency = publication_frequency,
      Numbering = (if numbering \<noteq> [] then numbering ! 0 else ''''), Notes = notes,
      Contents = contents, Summary = summary, Format = Format_loop holdings [],
      LiteraryForm = literaryForm lf, RelatedPlace = related_place,
      InBibliography = in_bibliography, RelatedItems = related_items,
      Links = getLinks rec, Holdings = holdings\<rparr>"

text \<open>The labels that \<open>marcToRecord\<close> looks up, in the order of its statements.\<close>

definition mapperLabels :: "string list" where
  "mapperLabels =
     [''oclc_number'', ''lccn'', ''title'', ''alternate_titles'', ''creators'', ''contributors'',
      ''related_place'', ''related_items'', ''in_bibliography'', ''subjects'', ''isbns'',
      ''issns'', ''dois'', ''place_of_publication'', ''languages'', ''call_numbers'',
      ''edition'', ''imprint'', ''physical_description'', ''publication_frequency'',
      ''publication_date'', ''numbering'', ''notes'', ''contents'', ''summary'',
      ''literary_form'']"

text \<open>
  The labels that \<open>marcToRecord\<close> hands to \<open>applyRule\<close>, other than the title, each with
  the test that the attribute it fills is empty.
\<close>

definition attributeOfLabel :: "(string \<times> (Record \<Rightarrow> bool)) list" where
  "attributeOfLabel =
     [(''oclc_number'', \<lambda>d. OclcNumber d = []),
      (''lccn'', \<lambda>d. Lccn d = []),
      (''alternate_titles'', \<lambda>d. AlternateTitles d = []),
      (''creators'', \<lambda>d. Creator d = []),
      (''related_place'', \<lambda>d. RelatedPlace d = []),
      (''in_bibliography'', \<lambda>d. InBibliography d = []),
      (''subjects'', \<lambda>d. Subject d = []),
      (''isbns'', \<lambda>d. Isbn d = []),
      (''issns'', \<lambda>d. Issn d = []),
      (''dois'', \<lambda>d. Doi d = []),
      (''place_of_publication'', \<lambda>d. Country d = []),
      (''languages'', \<lambda>d. Language d = []),
      (''call_numbers'', \<lambda>d. CallNumber d = []),
      (''edition'', \<lambda>d. Edition d = []),
      (''imprint'', \<lambda>d. Imprint d = []),
      (''physical_description'', \<lambda>d. PhysicalDescription d = []),
      (''publication_frequency'', \<lambda>d. PublicationFrequency d = []),
      (''publication_date'', \<lambda>d. PublicationDate d = []),
      (''numbering'', \<lambda>d. Numbering d = []),
      (''notes'', \<lambda>d. Notes d = []),
      (''contents'', \<lambda>d. Contents d = []),
      (''summary'', \<lambda>d. Summary d = []),
      (''literary_form'', \<lambda>d. LiteraryForm d = [])]"

definition ruleLabels :: "string list" where
  "ruleLabels = map fst attributeOfLabel"

section \<open>Example inputs\<close>

text \<open>A ruleset with one rule per label; \<open>fieldsOf\<close> gives the field specifications.\<close>

definition rulesetOf :: "(string \<Rightarrow> Field option list) \<Rightarrow> string list \<Rightarrow> Rule option list" where
  "rulesetOf fieldsOf labels =
     map (\<lambda>l. Some \<lparr>Rule_Label = l, Rule_Array = True, Rule_Fields = fieldsOf l\<rparr>) labels"

definition titleField :: Field where
  "titleField = \<lparr>Field_Tag = ''245'', Field_Subfields = ''a'', Field_Bytes = [], Field_Kind = []\<rparr>"

text \<open>A ruleset for the given labels in which only the title rule has a field specification.\<close>

definition titleRules :: "string list \<Rightarrow> Rule option list" where
  "titleRules labels = rulesetOf (\<lambda>l. if l = ''title'' then [Some titleField] else []) labels"

text \<open>Every label of the mapper has a rule.\<close>

definition exampleRules :: "Rule option list" where
  "exampleRules = titleRules mapperLabels"

text \<open>Every label but \<open>notes\<close> has a rule.\<close>

definition rulesWithoutNotes :: "Rule option list" where
  "rulesWithoutNotes = titleRules (removeAll ''notes'' mapperLabels)"

text \<open>
  A record with a title field and one electronic-access field with indicators 4 and 0
  and the subfield \<open>u\<close>.
\<close>

definition exampleRecord :: fml_Record where
  "exampleRecord =
     \<lparr>ControlNum = ''001'', Leader_Type = CHR ''a'',
      Filter = (\<lambda>q. if q = ''245a'' then [[''A title'']] else []),
      DataField = (\<lambda>tag. if tag = ''856'' then
         [\<lparr>DataField_Indicator1 = CHR ''4'', DataField_Indicator2 = CHR ''0'',
           DataField_SubFields = [\<lparr>SubField_Code = ''u'', SubField_Value = ''http://x''\<rparr>]\<rparr>]
         else [])\<rparr>"

definition exampleDocument :: Record where
  "exampleDocument =
     builtRecord exampleRecord Map.empty Map.empty [] [] [''A title''] [] [] [] [] [] [] []
       [] [] [] [] [] [] [] [] [] [] [] [] [] [] [] [] (docHoldings exampleRecord)"

text \<open>A record without any field.\<close>

definition untitledRecord :: fml_Record where
  "untitledRecord =
     \<lparr>ControlNum = ''004'', Leader_Type = CHR ''a'', Filter = (\<lambda>q. []), DataField = (\<lambda>tag. [])\<rparr>"

text \<open>A rule with two field specifications whose values overlap.\<close>

definition creatorsRule :: Rule where
  "creatorsRule =
     \<lparr>Rule_Label = ''creators'', Rule_Array = True,
      Rule_Fields =
        [Some \<lparr>Field_Tag = ''100'', Field_Subfields = ''a'', Field_Bytes = [], Field_Kind = []\<rparr>,
         Some \<lparr>Field_Tag = ''700'', Field_Subfields = ''a'', Field_Bytes = [], Field_Kind = []\<rparr>]\<rparr>"

definition creatorsRecord :: fml_Record where
  "creatorsRecord =
     \<lparr>ControlNum = ''002'', Leader_Type = CHR ''a'',
      Filter = (\<lambda>q. if q = ''100a'' then [[''a''], [''b'']]
                     else if q = ''700a'' then [[''a'']] else []),
      DataField = (\<lambda>tag. [])\<rparr>"

text \<open>
  A field specification with the byte range 7:4, a record whose 008 field is long
  enough for it and one whose 008 field is too short, and a ruleset that uses the
  specification for the first label of the mapper.
\<close>

definition rangeField :: Field where
  "rangeField = \<lparr>Field_Tag = ''008'', Field_Subfields = [], Field_Bytes = ''7:4'', Field_Kind = []\<rparr>"

definition longRecord :: fml_Record where
  "longRecord =
     \<lparr>ControlNum = ''005'', Leader_Type = CHR ''a'',
      Filter = (\<lambda>q. if q = ''008'' then [[''850101s1985'']]
                     else if q = ''245a'' then [[''Long'']] else []),
      DataField = (\<lambda>tag. [])\<rparr>"

definition shortRecord :: fml_Record where
  "shortRecord =
     \<lparr>ControlNum = ''003'', Leader_Type = CHR ''a'',
      Filter = (\<lambda>q. if q = ''008'' then [[''abc'']]
                     else if q = ''245a'' then [[''Short'']] else []),
      DataField = (\<lambda>tag. [])\<rparr>"

definition rangeRules :: "Rule option list" where
  "rangeRules =
     rulesetOf (\<lambda>l. if l = ''title'' then [Some titleField]
                     else if l = ''oclc_number'' then [Some rangeField] else []) mapperLabels"

text \<open>
  A record whose 008 field is too short and that has no title field, and a ruleset that
  uses the byte range for a label that the mapper looks up after the title.
\<close>

definition shortUntitledRecord :: fml_Record where
  "shortUntitledRecord =
     \<lparr>ControlNum = ''006'', Leader_Type = CHR ''a'',
      Filter = (\<lambda>q. if q = ''008'' then [[''abc'']] else []),
      DataField = (\<lambda>tag. [])\<rparr>"

definition lateRangeRules :: "Rule option list" where
  "lateRangeRules =
     rulesetOf (\<lambda>l. if l = ''title'' then [Some titleField]
                     else if l = ''publication_date'' then [Some rangeField] else []) mapperLabels"

text \<open>
  The example record with one field of each holdings family, and the same record with
  the fields of the primary family removed.
\<close>

definition holdingsRecord :: fml_Record where
  "holdingsRecord =
     exampleRecord\<lparr>DataField := (\<lambda>tag.
        if tag = ''866'' then
          [\<lparr>DataField_Indicator1 = CHR '' '', DataField_Indicator2 = CHR ''0'',
            DataField_SubFields =
              [\<lparr>SubField_Code = ''b'', SubField_Value = ''HUM''\<rparr>,
               \<lparr>SubField_Code = ''c'', SubField_Value = ''STACK''\<rparr>,
               \<lparr>SubField_Code = ''a'', SubField_Value = ''v.1-3''\<rparr>]\<rparr>]
        else if tag = ''852'' then
          [\<lparr>DataField_Indicator1 = CHR '' '', DataField_Indicator2 = CHR '' '',
            DataField_SubFields =
              [\<lparr>SubField_Code = ''b'', SubField_Value = ''MUS''\<rparr>,
               \<lparr>SubField_Code = ''k'', SubField_Value = ''CD''\<rparr>]\<rparr>]
        else [])\<rparr>"

definition fallbackRecord :: fml_Record where
  "fallbackRecord = holdingsRecord\<lparr>DataField := (DataField holdingsRecord)(''866'' := [])\<rparr>"

section \<open>Lemmas\<close>

subsection \<open>Panics\<close>

lemma bindP_Inr [simp]: "bindP (Inr x) f = f x"
  by (simp add: bindP_def)

lemma bindP_Inl [simp]: "bindP (Inl p) f = Inl p"
  by (simp add: bindP_def)

lemma bindP_InrE:
  assumes "bindP m f = Inr y"
  obtains x where "m = Inr x" and "f x = Inr y"
  using assms by (cases m) (simp_all add: bindP_def)

lemma if_eqE:
  assumes "(if c then a else b) = y"
  obtains "c" and "a = y" | "\<not> c" and "b = y"
  using assms by (cases c) simp_all

subsection \<open>Code translation\<close>

lemma TranslateCodes_loop_eq:
  "TranslateCodes_loop cs m names =
     names @ map (\<lambda>c. if mapIndex m c \<noteq> '''' then mapIndex m c else c) cs"
  by (induction cs arbitrary: names) (simp_all add: Let_def)

lemma TranslateCodes_eq:
  "TranslateCodes cs m = map (\<lambda>c. if mapIndex m c \<noteq> '''' then mapIndex m c else c) cs"
  by (simp add: TranslateCodes_def TranslateCodes_loop_eq)

subsection \<open>Links\<close>





subsection \<open>De-duplication\<close>

lemma stringInSlice_set: "stringInSlice a list \<longleftrightarrow> a \<in> set list"
  by (induction list) auto

lemma set_dedupFirst: "set (dedupFirst xs) = set xs"
  by (induction xs) auto

lemma distinct_dedupFirst: "distinct (dedupFirst xs)"
  by (induction xs) (simp_all add: set_dedupFirst)

lemma dedupFirst_append:
  "dedupFirst (xs @ ys) = dedupFirst xs @ filter (\<lambda>y. y \<notin> set xs) (dedupFirst ys)"
proof (induction xs)
  case Nil
  then show ?case by simp
next
  case (Cons x xs)
  have "filter (\<lambda>y. y \<noteq> x) (filter (\<lambda>y. y \<notin> set xs) (dedupFirst ys)) =
        filter (\<lambda>y. y \<notin> set (x # xs)) (dedupFirst ys)"
    by (simp add: conj_commute)
  with Cons show ?case by simp
qed

lemma dedupFirst_distinct: "distinct xs \<Longrightarrow> dedupFirst xs = xs"
proof (induction xs)
  case Nil
  then show ?case by simp
next
  case (Cons x xs)
  then have "filter (\<lambda>y. y \<noteq> x) xs = xs" by (auto intro: filter_True)
  with Cons show ?case by simp
qed

lemma dedupFirst_rev_remdups: "dedupFirst xs = rev (remdups (rev xs))"
proof (induction xs rule: rev_induct)
  case Nil
  then show ?case by simp
next
  case (snoc x xs)
  show ?case
  proof (cases "x \<in> set xs")
    case True
    then show ?thesis using snoc by (simp add: dedupFirst_append)
  next
    case False
    then show ?thesis using snoc by (simp add: dedupFirst_append)
  qed
qed

lemma extractData_values_eq:
  "distinct field \<Longrightarrow> extractData_values f field = dedupFirst (field @ f)"
proof (induction f arbitrary: field)
  case Nil
  then show ?case by (simp add: dedupFirst_distinct)
next
  case (Cons y f)
  show ?case
  proof (cases "y \<in> set field")
    case True
    have "filter (\<lambda>x. x \<notin> set field) (filter (\<lambda>x. x \<noteq> y) (dedupFirst f)) =
          filter (\<lambda>x. x \<notin> set field) (dedupFirst f)"
      unfolding filter_filter using True by (intro filter_cong) auto
    then have "dedupFirst (field @ y # f) = dedupFirst (field @ f)"
      using True by (simp add: dedupFirst_append del: filter_filter)
    with True Cons show ?thesis by (simp add: stringInSlice_set)
  next
    case False
    with Cons.prems have "distinct (field @ [y])" by simp
    from Cons.IH [OF this] False show ?thesis by (simp add: stringInSlice_set)
  qed
qed

lemma extractData_loop_eq:
  "map (marc_filter rec) fs = map Inr yss \<Longrightarrow> distinct field \<Longrightarrow>
   extractData_loop fs rec field = Inr (dedupFirst (field @ concat yss))"
proof (induction fs arbitrary: field yss)
  case Nil
  then show ?case by (simp add: dedupFirst_distinct)
next
  case (Cons r fs)
  from Cons.prems(1) obtain ys yss' where yss: "yss = ys # yss'"
    and r: "marc_filter rec r = Inr ys" and rest: "map (marc_filter rec) fs = map Inr yss'"
    by (cases yss) auto
  have d: "distinct (extractData_values ys field)"
    using Cons.prems(2) by (simp add: extractData_values_eq distinct_dedupFirst)
  have "extractData_loop fs rec (extractData_values ys field) =
        Inr (dedupFirst (extractData_values ys field @ concat yss'))"
    by (rule Cons.IH [OF rest d])
  also have "dedupFirst (extractData_values ys field @ concat yss') =
        dedupFirst (dedupFirst (field @ ys) @ concat yss')"
    using Cons.prems(2) by (simp add: extractData_values_eq)
  also have "\<dots> = dedupFirst (field @ ys) @
        filter (\<lambda>y. y \<notin> set (field @ ys)) (dedupFirst (concat yss'))"
    by (simp only: dedupFirst_append [of "dedupFirst (field @ ys)"] set_dedupFirst
        dedupFirst_distinct [OF distinct_dedupFirst])
  also have "\<dots> = dedupFirst ((field @ ys) @ concat yss')"
    by (simp only: dedupFirst_append [of "field @ ys"])
  also have "\<dots> = dedupFirst (field @ concat yss)"
    by (simp add: yss)
  finally show ?case using r by simp
qed

subsection \<open>Holdings\<close>

lemma getHoldings_loop_eq:
  "5 \<le> length codes \<Longrightarrow> tag = ''866'' \<or> 6 \<le> length codes \<Longrightarrow>
   getHoldings_loop df tag codes holdings = Inr (holdings @ map (holdingOf tag codes) df)"
  by (induction df arbitrary: holdings) (auto simp add: Let_def holdingOf_def)

lemma getHoldings_eq:
  "5 \<le> length codes \<Longrightarrow> tag = ''866'' \<or> 6 \<le> length codes \<Longrightarrow>
   getHoldings rec tag codes = Inr (map (holdingOf tag codes) (DataField rec tag))"
  by (simp add: getHoldings_def Let_def getHoldings_loop_eq)

lemma getHoldings_866:
  "getHoldings rec ''866'' [''b'', ''c'', ''h'', ''a'', ''z''] =
     Inr (map (holdingOf ''866'' [''b'', ''c'', ''h'', ''a'', ''z'']) (DataField rec ''866''))"
  by (rule getHoldings_eq) simp_all

lemma getHoldings_852:
  "getHoldings rec ''852'' [''b'', ''c'', ''h'', ''a'', ''z'', ''k''] =
     Inr (map (holdingOf ''852'' [''b'', ''c'', ''h'', ''a'', ''z'', ''k'']) (DataField rec ''852''))"
  by (rule getHoldings_eq) simp_all

lemma mtr_holdings:
  assumes "getHoldings rec ''866'' [''b'', ''c'', ''h'', ''a'', ''z''] = Inr primary"
    and "(if length primary = 0
          then getHoldings rec ''852'' [''b'', ''c'', ''h'', ''a'', ''z'', ''k'']
          else Inr primary) = Inr holdings"
  shows "holdings = docHoldings rec"
  using assms by (auto simp add: getHoldings_866 getHoldings_852 docHoldings_def split: if_splits)

subsection \<open>The record mapper\<close>

lemma mtr_title_missing:
  assumes "applyRule rec rules ''oclc_number'' = Inr oclc"
      and "applyRule rec rules ''lccn'' = Inr lccn"
      and "applyRule rec rules ''title'' = Inr []"
  shows "marcToRecord rec rules lc cc =
     Inr (emptyRecord\<lparr>Identifier := ControlNum rec, Source := ''MIT Aleph'',
            SourceLink := ''https://library.mit.edu/item/'' @ ControlNum rec,
            OclcNumber := oclc,
            Lccn := (if lccn \<noteq> [] then TrimSpace (lccn ! 0) else '''')\<rparr>,
          Some (''Record '' @ ControlNum rec @ '' has no title, check validity''))"
  using assms by (simp add: marcToRecord_def Let_def)

lemma mtr_error:
  assumes "marcToRecord rec rules lc cc = Inr (d, Some e)"
  shows "applyRule rec rules ''title'' = Inr [] \<and>
         e = ''Record '' @ ControlNum rec @ '' has no title, check validity''"
proof -
  show ?thesis
    apply (insert assms)
    apply (unfold marcToRecord_def Let_def)
    apply (erule bindP_InrE)+
    apply (erule if_eqE)
     apply simp
    apply (erule bindP_InrE)+
    apply simp
    done
qed

lemma mtr_success_elim:
  assumes "marcToRecord rec rules lc cc = Inr (d, None)"
  obtains oclc lccn title alternate_titles creators contributors related_place
      related_items in_bibliography subjects isbns issns dois country languages call_numbers
      edition imprint description publication_frequency date numbering notez contents summary
      lf
  where "applyRule rec rules ''oclc_number'' = Inr oclc"
    and "applyRule rec rules ''lccn'' = Inr lccn"
    and "applyRule rec rules ''title'' = Inr title" and "title \<noteq> []"
    and "applyRule rec rules ''alternate_titles'' = Inr alternate_titles"
    and "applyRule rec rules ''creators'' = Inr creators"
    and "getContributors rec rules ''contributors'' = Inr contributors"
    and "applyRule rec rules ''related_place'' = Inr related_place"
    and "getRelatedItems rec rules ''related_items'' = Inr related_items"
    and "applyRule rec rules ''in_bibliography'' = Inr in_bibliography"
    and "applyRule rec rules ''subjects'' = Inr subjects"
    and "applyRule rec rules ''isbns'' = Inr isbns"
    and "applyRule rec rules ''issns'' = Inr issns"
    and "applyRule rec rules ''dois'' = Inr dois"
    and "applyRule rec rules ''place_of_publication'' = Inr country"
    and "applyRule rec rules ''languages'' = Inr languages"
    and "applyRule rec rules ''call_numbers'' = Inr call_numbers"
    and "applyRule rec rules ''edition'' = Inr edition"
    and "applyRule rec rules ''imprint'' = Inr imprint"
    and "applyRule rec rules ''physical_description'' = Inr description"
    and "applyRule rec rules ''publication_frequency'' = Inr publication_frequency"
    and "applyRule rec rules ''publication_date'' = Inr date"
    and "applyRule rec rules ''numbering'' = Inr numbering"
    and "applyRule rec rules ''notes'' = Inr notez"
    and "applyRule rec rules ''contents'' = Inr contents"
    and "applyRule rec rules ''summary'' = Inr summary"
    and "applyRule rec rules ''literary_form'' = Inr lf"
    and "d = builtRecord rec lc cc oclc lccn title alternate_titles creators contributors
           related_place related_items in_bibliography subjects isbns issns dois country
           languages call_numbers edition imprint description publication_frequency date
           numbering notez contents summary lf (docHoldings rec)"
proof -
  show thesis
    apply (insert assms)
    apply (unfold marcToRecord_def Let_def)
    apply (erule bindP_InrE)+
    apply (erule if_eqE)
     apply simp
    apply (erule bindP_InrE)+
    apply (rule that; assumption?)
    apply (drule (1) mtr_holdings)
    apply (simp add: builtRecord_def emptyRecord_def)
    done
qed

lemma mtr_success_intro:
  assumes "applyRule rec rules ''oclc_number'' = Inr oclc"
    and "applyRule rec rules ''lccn'' = Inr lccn"
    and "applyRule rec rules ''title'' = Inr title" and "title \<noteq> []"
    and "applyRule rec rules ''alternate_titles'' = Inr alternate_titles"
    and "applyRule rec rules ''creators'' = Inr creators"
    and "getContributors rec rules ''contributors'' = Inr contributors"
    and "applyRule rec rules ''related_place'' = Inr related_place"
    and "getRelatedItems rec rules ''related_items'' = Inr related_items"
    and "applyRule rec rules ''in_bibliography'' = Inr in_bibliography"
    and "applyRule rec rules ''subjects'' = Inr subjects"
    and "applyRule rec rules ''isbns'' = Inr isbns"
    and "applyRule rec rules ''issns'' = Inr issns"
    and "applyRule rec rules ''dois'' = Inr dois"
    and "applyRule rec rules ''place_of_publication'' = Inr country"
    and "applyRule rec rules ''languages'' = Inr languages"
    and "applyRule rec rules ''call_numbers'' = Inr call_numbers"
    and "applyRule rec rules ''edition'' = Inr edition"
    and "applyRule rec rules ''imprint'' = Inr imprint"
    and "applyRule rec rules ''physical_description'' = Inr description"
    and "applyRule rec rules ''publication_frequency'' = Inr publication_frequency"
    and "applyRule rec rules ''publication_date'' = Inr date"
    and "applyRule rec rules ''numbering'' = Inr numbering"
    and "applyRule rec rules ''notes'' = Inr notez"
    and "applyRule rec rules ''contents'' = Inr contents"
    and "applyRule rec rules ''summary'' = Inr summary"
    and "applyRule rec rules ''literary_form'' = Inr lf"
  shows "marcToRecord rec rules lc cc =
     Inr (builtRecord rec lc cc oclc lccn title alternate_titles creators contributors
           related_place related_items in_bibliography subjects isbns issns dois country
           languages call_numbers edition imprint description publication_frequency date
           numbering notez contents summary lf (docHoldings rec), None)"
  unfolding marcToRecord_def Let_def
  apply (simp only: assms bindP_Inr getHoldings_866 getHoldings_852 if_False)
  apply (simp add: builtRecord_def emptyRecord_def docHoldings_def)
  done

lemma mtr_first_panic:
  "applyRule rec rules ''oclc_number'' = Inl p \<Longrightarrow> marcToRecord rec rules lc cc = Inl p"
  by (simp add: marcToRecord_def Let_def)

lemma mtr_holdings_of:
  assumes "marcToRecord rec rules lc cc = Inr (d, None)"
  shows "Holdings d = docHoldings rec"
  using assms by (rule mtr_success_elim) (simp add: builtRecord_def)

lemma mtr_continues:
  assumes all: "\<forall>l \<in> set ruleLabels. \<exists>v. applyRule rec rules l = Inr v"
    and cs: "getContributors rec rules ''contributors'' = Inr cs"
    and ris: "getRelatedItems rec rules ''related_items'' = Inr ris"
    and title: "applyRule rec rules ''title'' = Inr (t # ts)"
  shows "\<exists>d. marcToRecord rec rules lc cc = Inr (d, None) \<and> Title d = t \<and>
           (\<forall>(l, isEmpty) \<in> set attributeOfLabel. applyRule rec rules l = Inr [] \<longrightarrow> isEmpty d) \<and>
           (cs = [] \<longrightarrow> Contributor d = []) \<and> (ris = [] \<longrightarrow> RelatedItems d = [])"
proof -
  from all obtain f where f: "\<forall>l \<in> set ruleLabels. applyRule rec rules l = Inr (f l)"
    by (auto dest!: bchoice)
  have m: "marcToRecord rec rules lc cc =
     Inr (builtRecord rec lc cc (f ''oclc_number'') (f ''lccn'') (t # ts) (f ''alternate_titles'')
           (f ''creators'') cs (f ''related_place'') ris (f ''in_bibliography'') (f ''subjects'')
           (f ''isbns'') (f ''issns'') (f ''dois'') (f ''place_of_publication'') (f ''languages'')
           (f ''call_numbers'') (f ''edition'') (f ''imprint'') (f ''physical_description'')
           (f ''publication_frequency'') (f ''publication_date'') (f ''numbering'') (f ''notes'')
           (f ''contents'') (f ''summary'') (f ''literary_form'') (docHoldings rec), None)"
    by (rule mtr_success_intro)
       (use f cs ris title in \<open>simp_all add: ruleLabels_def attributeOfLabel_def\<close>)
  show ?thesis
    unfolding m
    using f
    by (simp add: ruleLabels_def attributeOfLabel_def builtRecord_def TranslateCodes_eq
        literaryForm_def)
qed

lemma mtr_success_rules:
  assumes "marcToRecord rec rules lc cc = Inr (d, None)"
  shows "(\<forall>l \<in> set ruleLabels. \<exists>v. applyRule rec rules l = Inr v) \<and>
         (\<exists>t ts. applyRule rec rules ''title'' = Inr (t # ts)) \<and>
         (\<exists>cs. getContributors rec rules ''contributors'' = Inr cs) \<and>
         (\<exists>ris. getRelatedItems rec rules ''related_items'' = Inr ris)"
  using assms
  by (rule mtr_success_elim) (simp add: ruleLabels_def attributeOfLabel_def neq_Nil_conv)

lemma applyRule_missing:
  "getRules rules label = Inr None \<Longrightarrow> applyRule rec rules label = Inl NilPointerDereference"
  by (simp add: applyRule_def extractData_def)

lemma getContributors_missing:
  "getRules rules label = Inr None \<Longrightarrow> getContributors rec rules label = Inl NilPointerDereference"
  by (simp add: getContributors_def)

lemma getRelatedItems_missing:
  "getRules rules label = Inr None \<Longrightarrow> getRelatedItems rec rules label = Inl NilPointerDereference"
  by (simp add: getRelatedItems_def)

lemma mapperLabels_split:
  "set mapperLabels = set ruleLabels \<union> {''title'', ''contributors'', ''related_items''}"
  by (auto simp add: mapperLabels_def ruleLabels_def attributeOfLabel_def)

lemma mtr_missing_rule:
  assumes "getRules rules label = Inr None" and "label \<in> set mapperLabels"
  shows "marcToRecord rec rules lc cc \<noteq> Inr (d, None)"
proof
  assume "marcToRecord rec rules lc cc = Inr (d, None)"
  from mtr_success_rules [OF this] assms(2)
  have "(\<exists>v. applyRule rec rules label = Inr v) \<or>
        (\<exists>cs. getContributors rec rules label = Inr cs) \<or>
        (\<exists>ris. getRelatedItems rec rules label = Inr ris)"
    unfolding mapperLabels_split by auto
  with assms(1) show False
    by (auto simp add: applyRule_missing getContributors_missing getRelatedItems_missing)
qed

lemma mtr_panicked_rule:
  assumes "applyRule rec rules label = Inl p" and "label \<in> set ruleLabels \<or> label = ''title''"
  shows "marcToRecord rec rules lc cc \<noteq> Inr (d, None)"
proof
  assume "marcToRecord rec rules lc cc = Inr (d, None)"
  from mtr_success_rules [OF this] assms(2)
  have "\<exists>v. applyRule rec rules label = Inr v" by auto
  with assms(1) show False by simp
qed

subsection \<open>The answers of \<open>DataField\<close> matter to links and holdings only\<close>

lemma marc_filter_DataField [simp]:
  "marc_filter (rec\<lparr>DataField := g\<rparr>) f = marc_filter rec f"
  by (cases f) (simp_all add: marc_filter_def)

lemma extractData_loop_DataField [simp]:
  "extractData_loop fs (rec\<lparr>DataField := g\<rparr>) field = extractData_loop fs rec field"
  by (induction fs arbitrary: field) (simp_all split: sum.split)

lemma applyRule_DataField [simp]:
  "applyRule (rec\<lparr>DataField := g\<rparr>) rules l = applyRule rec rules l"
  by (simp add: applyRule_def extractData_def cong: option.case_cong)

lemma getContributors_loop_DataField [simp]:
  "getContributors_loop fs (rec\<lparr>DataField := g\<rparr>) c = getContributors_loop fs rec c"
  by (induction fs arbitrary: c) (simp_all add: Let_def split: option.split sum.split)

lemma getContributors_DataField [simp]:
  "getContributors (rec\<lparr>DataField := g\<rparr>) rules l = getContributors rec rules l"
  by (simp add: getContributors_def cong: option.case_cong)

lemma getRelatedItems_loop_DataField [simp]:
  "getRelatedItems_loop fs (rec\<lparr>DataField := g\<rparr>) c = getRelatedItems_loop fs rec c"
  by (induction fs arbitrary: c) (simp_all add: Let_def split: option.split sum.split)

lemma getRelatedItems_DataField [simp]:
  "getRelatedItems (rec\<lparr>DataField := g\<rparr>) rules l = getRelatedItems rec rules l"
  by (simp add: getRelatedItems_def cong: option.case_cong)

lemma mtr_fallback_unused:
  assumes "DataField rec ''866'' \<noteq> []"
  shows "marcToRecord (rec\<lparr>DataField := (DataField rec)(''852'' := other)\<rparr>) rules lc cc =
         marcToRecord rec rules lc cc"
  unfolding marcToRecord_def Let_def
  using assms
  by (simp add: getHoldings_866 getLinks_def cong: if_cong)

subsection \<open>Byte ranges\<close>

lemma filter_loop_plain:
  "Field_Bytes fld = [] \<Longrightarrow>
   filter_loop fld occs stuff = Inr (stuff @ map (\<lambda>f. Join f '' '') occs)"
  by (induction occs arbitrary: stuff) (simp_all add: Let_def)

lemma sliceString_eq:
  "sliceString v (fst b) (snd b) =
     (if inBounds v b then Inr (byteRange v b) else Inl SliceBoundsOutOfRange)"
  by (simp add: sliceString_def inBounds_def byteRange_def)

lemma filter_loop_range:
  assumes "Field_Bytes fld \<noteq> []" and "2 \<le> length (Split (Field_Bytes fld) CHR '':'')"
  shows "filter_loop fld occs stuff =
     (if \<forall>f \<in> set occs. inBounds (Join f '' '') (rangeBounds (Field_Bytes fld))
      then Inr (stuff @ map (\<lambda>f. byteRange (Join f '' '') (rangeBounds (Field_Bytes fld))) occs)
      else Inl SliceBoundsOutOfRange)"
proof (induction occs arbitrary: stuff)
  case Nil
  then show ?case by simp
next
  case (Cons f occs)
  have s: "sliceString (Join f '' '') (fst (Atoi (Split (Field_Bytes fld) CHR '':'' ! 0)))
       (add_int64 (fst (Atoi (Split (Field_Bytes fld) CHR '':'' ! 0)))
          (fst (Atoi (Split (Field_Bytes fld) CHR '':'' ! 1)))) =
     (if inBounds (Join f '' '') (rangeBounds (Field_Bytes fld))
      then Inr (byteRange (Join f '' '') (rangeBounds (Field_Bytes fld)))
      else Inl SliceBoundsOutOfRange)"
    using sliceString_eq [of "Join f '' ''" "rangeBounds (Field_Bytes fld)"]
    by (simp add: rangeBounds_def Let_def)
  show ?case
    using assms by (simp add: Let_def s [unfolded One_nat_def] Cons.IH del: Join.simps)
qed

lemma filter_loop_no_colon:
  assumes "Field_Bytes fld \<noteq> []" and "length (Split (Field_Bytes fld) CHR '':'') < 2"
  shows "filter_loop fld (f # occs) stuff = Inl IndexOutOfRange"
  using assms by (simp add: Let_def)

lemma byteRange_length: "inBounds v b \<Longrightarrow> length (byteRange v b) = nat (snd b - fst b)"
  by (auto simp add: inBounds_def byteRange_def)

lemma Atoi_syntax: "snd (Atoi s) = Some ErrSyntax \<Longrightarrow> fst (Atoi s) = 0"
  by (auto simp add: Atoi_def Let_def split: prod.splits if_splits)

lemma add_int64_small: "0 \<le> a \<Longrightarrow> 0 \<le> b \<Longrightarrow> a + b < 2 ^ 63 \<Longrightarrow> add_int64 a b = a + b"
  by (simp add: add_int64_def)

lemma Atoi_7: "Atoi ''7'' = (7, None)"
  by (simp add: Atoi_def ParseUint_def isDigit_def Let_def)

lemma Atoi_4: "Atoi ''4'' = (4, None)"
  by (simp add: Atoi_def ParseUint_def isDigit_def Let_def)

lemma Atoi_x: "Atoi ''x'' = (0, Some ErrSyntax)"
  by (simp add: Atoi_def ParseUint_def isDigit_def Let_def)

lemma Atoi_y: "Atoi ''y'' = (0, Some ErrSyntax)"
  by (simp add: Atoi_def ParseUint_def isDigit_def Let_def)

lemma rangeBounds_7_4: "rangeBounds ''7:4'' = (7, 11)"
  by (simp add: rangeBounds_def Let_def Atoi_7 Atoi_4 add_int64_def)

lemma rangeBounds_x_y: "rangeBounds ''x:y'' = (0, 0)"
  by (simp add: rangeBounds_def Let_def Atoi_x Atoi_y add_int64_def)

subsection \<open>The producer\<close>

lemma parse_panic:
  "marcToRecord rec rules lc cc = Inl p \<Longrightarrow>
   parse rules lc cc (Decoded rec # mr) = \<lparr>sent = [], panicked = Some p\<rparr>"
  by simp

lemma parse_skip:
  "marcToRecord rec rules lc cc = Inr (r, Some e) \<Longrightarrow>
   parse rules lc cc (pre @ Decoded rec # post) = parse rules lc cc (pre @ post)"
proof (induction pre)
  case Nil
  then show ?case by simp
next
  case (Cons a pre)
  then show ?case
    by (cases a) (simp_all split: sum.splits prod.splits option.splits)
qed

lemma parse_sent:
  "d \<in> set (sent (parse rules lc cc mr)) \<Longrightarrow>
   \<exists>rec. Decoded rec \<in> set mr \<and> marcToRecord rec rules lc cc = Inr (d, None)"
proof (induction mr)
  case Nil
  then show ?case by simp
next
  case (Cons a mr)
  then show ?case
    by (cases a) (auto simp add: Let_def split: sum.splits prod.splits option.splits)
qed

subsection \<open>The example inputs\<close>

lemma getRules_rulesetOf:
  "getRules (rulesetOf fieldsOf labels) l =
     Inr (if l \<in> set labels
          then Some \<lparr>Rule_Label = l, Rule_Array = True, Rule_Fields = fieldsOf l\<rparr> else None)"
  by (induction labels) (auto simp add: rulesetOf_def)

lemma applyRule_rulesetOf:
  "l \<in> set labels \<Longrightarrow>
   applyRule rec (rulesetOf fieldsOf labels) l = extractData_loop (fieldsOf l) rec []"
  by (simp add: applyRule_def getRules_rulesetOf extractData_def)

lemma titleRules_other:
  "l \<in> set labels \<Longrightarrow> l \<noteq> ''title'' \<Longrightarrow> applyRule rec (titleRules labels) l = Inr []"
  by (simp add: titleRules_def applyRule_rulesetOf)

lemma titleRules_title:
  assumes "''title'' \<in> set labels"
  shows "applyRule rec (titleRules labels) ''title'' =
     Inr (dedupFirst (map (\<lambda>f. Join f '' '') (Filter rec ''245a'')))"
proof -
  have "extractData_loop [Some titleField] rec [] =
      Inr (dedupFirst ([] @ concat [map (\<lambda>f. Join f '' '') (Filter rec ''245a'')]))"
    by (rule extractData_loop_eq)
       (simp_all add: marc_filter_def titleField_def filter_loop_plain)
  with assms show ?thesis
    by (simp add: titleRules_def applyRule_rulesetOf)
qed

lemma titleRules_missing: "l \<notin> set labels \<Longrightarrow> getRules (titleRules labels) l = Inr None"
  by (simp add: titleRules_def getRules_rulesetOf)

lemma titleRules_contributors:
  "''contributors'' \<in> set labels \<Longrightarrow>
   getContributors rec (titleRules labels) ''contributors'' = Inr []"
  by (simp add: titleRules_def getContributors_def getRules_rulesetOf)

lemma titleRules_related_items:
  "''related_items'' \<in> set labels \<Longrightarrow>
   getRelatedItems rec (titleRules labels) ''related_items'' = Inr []"
  by (simp add: titleRules_def getRelatedItems_def getRules_rulesetOf)

lemma example_maps:
  "marcToRecord exampleRecord exampleRules Map.empty Map.empty = Inr (exampleDocument, None)"
  unfolding exampleDocument_def exampleRules_def
  by (rule mtr_success_intro)
     (simp_all add: titleRules_other titleRules_title titleRules_contributors
        titleRules_related_items mapperLabels_def exampleRecord_def)

lemma example_untitled:
  assumes "''oclc_number'' \<in> set labels" and "''lccn'' \<in> set labels" and "''title'' \<in> set labels"
  shows "marcToRecord untitledRecord (titleRules labels) Map.empty Map.empty =
     Inr (emptyRecord\<lparr>Identifier := ''004'', Source := ''MIT Aleph'',
            SourceLink := ''https://library.mit.edu/item/004''\<rparr>,
          Some ''Record 004 has no title, check validity'')"
proof -
  have "marcToRecord untitledRecord (titleRules labels) Map.empty Map.empty =
     Inr (emptyRecord\<lparr>Identifier := ControlNum untitledRecord, Source := ''MIT Aleph'',
            SourceLink := ''https://library.mit.edu/item/'' @ ControlNum untitledRecord,
            OclcNumber := [],
            Lccn := (if ([]::string list) \<noteq> [] then TrimSpace ([] ! 0) else [])\<rparr>,
          Some (''Record '' @ ControlNum untitledRecord @ '' has no title, check validity''))"
    by (rule mtr_title_missing)
       (use assms in \<open>simp_all add: titleRules_other titleRules_title untitledRecord_def\<close>)
  then show ?thesis
    by (simp add: untitledRecord_def emptyRecord_def)
qed

lemma without_notes_example:
  "marcToRecord exampleRecord rulesWithoutNotes Map.empty Map.empty = Inl NilPointerDereference"
proof -
  have t: "applyRule exampleRecord rulesWithoutNotes ''title'' = Inr [''A title'']"
    by (simp add: rulesWithoutNotes_def titleRules_title mapperLabels_def exampleRecord_def)
  have "getRules rulesWithoutNotes ''notes'' = Inr None"
    by (simp add: rulesWithoutNotes_def titleRules_missing)
  then have n: "applyRule exampleRecord rulesWithoutNotes ''notes'' = Inl NilPointerDereference"
    by (rule applyRule_missing)
  have o: "applyRule exampleRecord rulesWithoutNotes l = Inr []"
    if "l \<in> set mapperLabels" and "l \<noteq> ''title''" and "l \<noteq> ''notes''" for l
    using that by (simp add: rulesWithoutNotes_def titleRules_other)
  have c: "getContributors exampleRecord rulesWithoutNotes ''contributors'' = Inr []"
    by (simp add: rulesWithoutNotes_def titleRules_contributors mapperLabels_def)
  have i: "getRelatedItems exampleRecord rulesWithoutNotes ''related_items'' = Inr []"
    by (simp add: rulesWithoutNotes_def titleRules_related_items mapperLabels_def)
  show ?thesis
    unfolding marcToRecord_def Let_def
    by (simp add: t n o c i mapperLabels_def)
qed

lemma short_panics: "marc_filter shortRecord (Some rangeField) = Inl SliceBoundsOutOfRange"
  by (simp add: marc_filter_def rangeField_def shortRecord_def filter_loop_range rangeBounds_7_4
      inBounds_def del: filter_loop.simps)

lemma short_run:
  "parse rangeRules Map.empty Map.empty [Decoded shortRecord, Decoded exampleRecord] =
     \<lparr>sent = [], panicked = Some SliceBoundsOutOfRange\<rparr>"
proof -
  have "applyRule shortRecord rangeRules ''oclc_number'' = Inl SliceBoundsOutOfRange"
    by (simp add: rangeRules_def applyRule_rulesetOf mapperLabels_def short_panics)
  then have "marcToRecord shortRecord rangeRules Map.empty Map.empty = Inl SliceBoundsOutOfRange"
    by (rule mtr_first_panic)
  then show ?thesis by (rule parse_panic)
qed

lemma short_untitled_panics:
  "marc_filter shortUntitledRecord (Some rangeField) = Inl SliceBoundsOutOfRange"
  by (simp add: marc_filter_def rangeField_def shortUntitledRecord_def filter_loop_range
      rangeBounds_7_4 inBounds_def del: filter_loop.simps)

lemma short_untitled_title: "applyRule shortUntitledRecord rangeRules ''title'' = Inr []"
  by (simp add: rangeRules_def applyRule_rulesetOf mapperLabels_def marc_filter_def
      titleField_def shortUntitledRecord_def)

lemma short_untitled_maps:
  "marcToRecord shortUntitledRecord rangeRules Map.empty Map.empty = Inl SliceBoundsOutOfRange"
proof -
  have "applyRule shortUntitledRecord rangeRules ''oclc_number'' = Inl SliceBoundsOutOfRange"
    by (simp add: rangeRules_def applyRule_rulesetOf mapperLabels_def short_untitled_panics)
  then show ?thesis by (rule mtr_first_panic)
qed

lemma late_range_title: "applyRule shortRecord lateRangeRules ''title'' = Inr [''Short'']"
  by (simp add: lateRangeRules_def applyRule_rulesetOf mapperLabels_def marc_filter_def
      titleField_def shortRecord_def Let_def)

lemma late_range_maps:
  "marcToRecord shortRecord lateRangeRules Map.empty Map.empty = Inl SliceBoundsOutOfRange"
proof -
  have n: "applyRule shortRecord lateRangeRules ''publication_date'' = Inl SliceBoundsOutOfRange"
    by (simp add: lateRangeRules_def applyRule_rulesetOf mapperLabels_def short_panics)
  have o: "applyRule shortRecord lateRangeRules l = Inr []"
    if "l \<in> set mapperLabels" and "l \<noteq> ''title''" and "l \<noteq> ''publication_date''" for l
    using that by (simp add: lateRangeRules_def applyRule_rulesetOf)
  have c: "getContributors shortRecord lateRangeRules ''contributors'' = Inr []"
    by (simp add: lateRangeRules_def getContributors_def getRules_rulesetOf mapperLabels_def)
  have i: "getRelatedItems shortRecord lateRangeRules ''related_items'' = Inr []"
    by (simp add: lateRangeRules_def getRelatedItems_def getRules_rulesetOf mapperLabels_def)
  show ?thesis
    unfolding marcToRecord_def Let_def
    by (simp add: late_range_title n o c i mapperLabels_def)
qed

section \<open>The claims\<close>

text \<open>
  C1, as amended: when the rule applications that precede the title (\<open>oclc_number\<close>
  and \<open>lccn\<close>) return and the title rule yields no values, \<open>marcToRecord\<close> returns the
  error \<open>Record <id> has no title, check validity\<close>, and \<open>parse\<close> sends nothing for the
  record: the run is the run of the stream without it. Every record sent comes from a
  record whose title rule yielded a value. The missing title is the only cause of an
  error return: when the title rule yields a value and no rule application panics,
  \<open>marcToRecord\<close> returns a document without error, and in it every attribute whose
  rule yielded no values is empty. A rule application that panics aborts the mapping
  too, without an error return: the record gives no document, and a panic of the
  first application is the outcome of \<open>marcToRecord\<close> whatever the title rule yields.
\<close>

theorem missing_title_rejected:
  "(applyRule rec rules ''oclc_number'' = Inr oclc \<longrightarrow>
    applyRule rec rules ''lccn'' = Inr lccn \<longrightarrow>
    applyRule rec rules ''title'' = Inr [] \<longrightarrow>
      (\<exists>r. marcToRecord rec rules lc cc =
         Inr (r, Some (''Record '' @ ControlNum rec @ '' has no title, check validity''))) \<and>
      parse rules lc cc (pre @ Decoded rec # post) = parse rules lc cc (pre @ post)) \<and>
   (marcToRecord rec rules lc cc = Inr (r, Some e) \<longrightarrow>
      applyRule rec rules ''title'' = Inr [] \<and>
      e = ''Record '' @ ControlNum rec @ '' has no title, check validity'') \<and>
   (d \<in> set (sent (parse rules lc cc mr)) \<longrightarrow>
      (\<exists>rec' t ts. Decoded rec' \<in> set mr \<and> marcToRecord rec' rules lc cc = Inr (d, None) \<and>
         applyRule rec' rules ''title'' = Inr (t # ts))) \<and>
   ((\<forall>l \<in> set ruleLabels. \<exists>v. applyRule rec rules l = Inr v) \<longrightarrow>
    getContributors rec rules ''contributors'' = Inr cs \<longrightarrow>
    getRelatedItems rec rules ''related_items'' = Inr ris \<longrightarrow>
    applyRule rec rules ''title'' = Inr (t # ts) \<longrightarrow>
      (\<exists>d'. marcToRecord rec rules lc cc = Inr (d', None) \<and> Title d' = t \<and>
         (\<forall>(l, isEmpty) \<in> set attributeOfLabel. applyRule rec rules l = Inr [] \<longrightarrow> isEmpty d') \<and>
         (cs = [] \<longrightarrow> Contributor d' = []) \<and> (ris = [] \<longrightarrow> RelatedItems d' = []))) \<and>
   (applyRule rec rules ''oclc_number'' = Inl p \<longrightarrow> marcToRecord rec rules lc cc = Inl p) \<and>
   (applyRule rec rules label = Inl p \<longrightarrow> label \<in> set ruleLabels \<or> label = ''title'' \<longrightarrow>
      marcToRecord rec rules lc cc \<noteq> Inr (doc, None))"
proof (intro conjI impI)
  assume a: "applyRule rec rules ''oclc_number'' = Inr oclc"
    "applyRule rec rules ''lccn'' = Inr lccn" "applyRule rec rules ''title'' = Inr []"
  show "\<exists>r. marcToRecord rec rules lc cc =
      Inr (r, Some (''Record '' @ ControlNum rec @ '' has no title, check validity''))"
    using mtr_title_missing [OF a] by blast
  show "parse rules lc cc (pre @ Decoded rec # post) = parse rules lc cc (pre @ post)"
    using mtr_title_missing [OF a] by (rule parse_skip)
next
  assume "marcToRecord rec rules lc cc = Inr (r, Some e)"
  note y = mtr_error [OF this]
  show "applyRule rec rules ''title'' = Inr []"
    by (rule y [THEN conjunct1])
  show "e = ''Record '' @ ControlNum rec @ '' has no title, check validity''"
    by (rule y [THEN conjunct2])
next
  assume "d \<in> set (sent (parse rules lc cc mr))"
  then obtain rec' where r: "Decoded rec' \<in> set mr"
    and m: "marcToRecord rec' rules lc cc = Inr (d, None)"
    by (blast dest: parse_sent)
  from mtr_success_rules [OF m] obtain t' ts' where
    "applyRule rec' rules ''title'' = Inr (t' # ts')" by blast
  with r m show "\<exists>rec' t ts. Decoded rec' \<in> set mr \<and>
      marcToRecord rec' rules lc cc = Inr (d, None) \<and>
      applyRule rec' rules ''title'' = Inr (t # ts)"
    by blast
next
  assume "\<forall>l \<in> set ruleLabels. \<exists>v. applyRule rec rules l = Inr v"
    and "getContributors rec rules ''contributors'' = Inr cs"
    and "getRelatedItems rec rules ''related_items'' = Inr ris"
    and "applyRule rec rules ''title'' = Inr (t # ts)"
  then show "\<exists>d'. marcToRecord rec rules lc cc = Inr (d', None) \<and> Title d' = t \<and>
      (\<forall>(l, isEmpty) \<in> set attributeOfLabel. applyRule rec rules l = Inr [] \<longrightarrow> isEmpty d') \<and>
      (cs = [] \<longrightarrow> Contributor d' = []) \<and> (ris = [] \<longrightarrow> RelatedItems d' = [])"
    by (rule mtr_continues)
next
  assume "applyRule rec rules ''oclc_number'' = Inl p"
  then show "marcToRecord rec rules lc cc = Inl p" by (rule mtr_first_panic)
next
  assume "applyRule rec rules label = Inl p" and "label \<in> set ruleLabels \<or> label = ''title''"
  then show "marcToRecord rec rules lc cc \<noteq> Inr (doc, None)" by (rule mtr_panicked_rule)
qed

theorem missing_title_rejected_witness:
  "applyRule untitledRecord exampleRules ''oclc_number'' = Inr [] \<and>
   applyRule untitledRecord exampleRules ''lccn'' = Inr [] \<and>
   applyRule untitledRecord exampleRules ''title'' = Inr [] \<and>
   marcToRecord untitledRecord exampleRules Map.empty Map.empty =
     Inr (emptyRecord\<lparr>Identifier := ''004'', Source := ''MIT Aleph'',
            SourceLink := ''https://library.mit.edu/item/004''\<rparr>,
          Some ''Record 004 has no title, check validity'') \<and>
   parse exampleRules Map.empty Map.empty [Decoded untitledRecord, Decoded exampleRecord] =
     \<lparr>sent = [exampleDocument], panicked = None\<rparr> \<and>
   list_all (\<lambda>l. applyRule exampleRecord exampleRules l = Inr []) ruleLabels \<and>
   getContributors exampleRecord exampleRules ''contributors'' = Inr [] \<and>
   getRelatedItems exampleRecord exampleRules ''related_items'' = Inr [] \<and>
   applyRule exampleRecord exampleRules ''title'' = Inr [''A title''] \<and>
   marcToRecord exampleRecord exampleRules Map.empty Map.empty = Inr (exampleDocument, None) \<and>
   Title exampleDocument = ''A title'' \<and>
   list_all (\<lambda>(l, isEmpty). isEmpty exampleDocument) attributeOfLabel \<and>
   Contributor exampleDocument = [] \<and> RelatedItems exampleDocument = []"
proof -
  have o: "applyRule untitledRecord exampleRules ''oclc_number'' = Inr []"
    and l: "applyRule untitledRecord exampleRules ''lccn'' = Inr []"
    and t: "applyRule untitledRecord exampleRules ''title'' = Inr []"
    by (simp_all add: exampleRules_def titleRules_other titleRules_title mapperLabels_def
        untitledRecord_def)
  have m: "marcToRecord untitledRecord exampleRules Map.empty Map.empty =
     Inr (emptyRecord\<lparr>Identifier := ''004'', Source := ''MIT Aleph'',
            SourceLink := ''https://library.mit.edu/item/004''\<rparr>,
          Some ''Record 004 has no title, check validity'')"
    unfolding exampleRules_def by (rule example_untitled) (simp_all add: mapperLabels_def)
  have "parse exampleRules Map.empty Map.empty ([] @ Decoded untitledRecord # [Decoded exampleRecord]) =
        parse exampleRules Map.empty Map.empty ([] @ [Decoded exampleRecord])"
    using missing_title_rejected [where rec = untitledRecord and rules = exampleRules
        and oclc = "[]" and lccn = "[]" and lc = Map.empty and cc = Map.empty
        and pre = "[]" and post = "[Decoded exampleRecord]"] o l t
    by blast
  then have p: "parse exampleRules Map.empty Map.empty
        [Decoded untitledRecord, Decoded exampleRecord] =
      \<lparr>sent = [exampleDocument], panicked = None\<rparr>"
    by (simp add: example_maps)
  have a: "list_all (\<lambda>l. applyRule exampleRecord exampleRules l = Inr []) ruleLabels"
    by (simp add: ruleLabels_def attributeOfLabel_def exampleRules_def titleRules_other
        mapperLabels_def)
  have c: "getContributors exampleRecord exampleRules ''contributors'' = Inr []"
    by (simp add: exampleRules_def titleRules_contributors mapperLabels_def)
  have i: "getRelatedItems exampleRecord exampleRules ''related_items'' = Inr []"
    by (simp add: exampleRules_def titleRules_related_items mapperLabels_def)
  have e: "applyRule exampleRecord exampleRules ''title'' = Inr [''A title'']"
    by (simp add: exampleRules_def titleRules_title mapperLabels_def exampleRecord_def)
  from a have a': "\<forall>l \<in> set ruleLabels. \<exists>v. applyRule exampleRecord exampleRules l = Inr v"
    by (auto simp add: list_all_iff)
  from missing_title_rejected [where rec = exampleRecord and rules = exampleRules
      and cs = "[]" and ris = "[]" and t = "''A title''" and ts = "[]"
      and lc = Map.empty and cc = Map.empty] a' c i e
  obtain d' where d: "marcToRecord exampleRecord exampleRules Map.empty Map.empty = Inr (d', None)"
    and t': "Title d' = ''A title''"
    and n: "\<forall>(l, isEmpty) \<in> set attributeOfLabel.
       applyRule exampleRecord exampleRules l = Inr [] \<longrightarrow> isEmpty d'"
    and cr: "Contributor d' = []" "RelatedItems d' = []"
    by blast
  from d have d': "d' = exampleDocument" by (simp add: example_maps)
  from n a have "list_all (\<lambda>(l, isEmpty). isEmpty d') attributeOfLabel"
    by (fastforce simp add: list_all_iff ruleLabels_def)
  with o l t m p a c i e d t' cr show ?thesis
    unfolding d' by (intro conjI)
qed

text \<open>
  The claim as stated fails when a rule application panics. With the byte range 7:4 on
  the first label and a record whose 008 field is abc and that has no title field, the
  title rule yields no values, yet \<open>marcToRecord\<close> panics before the title is looked at
  and returns no error. With the same byte range on \<open>publication_date\<close>, a record that
  has a title is aborted as well, so the missing title is not the only extraction
  failure that aborts the mapping of a record.
\<close>

theorem missing_title_rejected_counterexample:
  "applyRule shortUntitledRecord rangeRules ''title'' = Inr [] \<and>
   marcToRecord shortUntitledRecord rangeRules Map.empty Map.empty = Inl SliceBoundsOutOfRange \<and>
   \<not> (\<forall>rec rules lc cc. applyRule rec rules ''title'' = Inr [] \<longrightarrow>
         (\<exists>r e. marcToRecord rec rules lc cc = Inr (r, Some e))) \<and>
   applyRule shortRecord lateRangeRules ''title'' = Inr [''Short''] \<and>
   marcToRecord shortRecord lateRangeRules Map.empty Map.empty = Inl SliceBoundsOutOfRange"
proof -
  have "\<not> (\<forall>rec rules lc cc. applyRule rec rules ''title'' = Inr [] \<longrightarrow>
         (\<exists>r e. marcToRecord rec rules lc cc = Inr (r, Some e)))"
  proof
    assume h: "\<forall>rec rules lc cc. applyRule rec rules ''title'' = Inr [] \<longrightarrow>
         (\<exists>r e. marcToRecord rec rules lc cc = Inr (r, Some e))"
    have "\<exists>r e. marcToRecord shortUntitledRecord rangeRules Map.empty Map.empty = Inr (r, Some e)"
      using h [rule_format, OF short_untitled_title] .
    then show False by (simp add: short_untitled_maps)
  qed
  with short_untitled_title short_untitled_maps late_range_title late_range_maps
  show ?thesis by (intro conjI)
qed

text \<open>
  C2, as amended: nothing validates the labels at startup. \<open>Generate\<close> starts the run
  whatever the ruleset, and a run over no records ends normally. A label without a
  rule is discovered while a record is mapped: \<open>getRules\<close> returns \<open>nil\<close>, applying the
  rule panics with a nil-pointer dereference, and \<open>marcToRecord\<close> returns no document
  for any record. When the first label of the mapper, \<open>oclc_number\<close>, has no rule, the
  run ends with that panic at the first decoded record.
\<close>

theorem missing_rule_found_per_record:
  "(getRules rules label = Inr None \<longrightarrow>
      applyRule rec rules label = Inl NilPointerDereference \<and>
      (label \<in> set mapperLabels \<longrightarrow> marcToRecord rec rules lc cc \<noteq> Inr (d, None))) \<and>
   (getRules rules ''oclc_number'' = Inr None \<longrightarrow>
      Generate (rules, err) lc cc (Decoded rec # mr) =
        \<lparr>sent = [], panicked = Some NilPointerDereference\<rparr>) \<and>
   Generate (rules, err) lc cc [] = \<lparr>sent = [], panicked = None\<rparr>"
proof (intro conjI impI)
  assume "getRules rules label = Inr None"
  then show "applyRule rec rules label = Inl NilPointerDereference"
    by (rule applyRule_missing)
next
  assume "getRules rules label = Inr None" and "label \<in> set mapperLabels"
  then show "marcToRecord rec rules lc cc \<noteq> Inr (d, None)"
    by (rule mtr_missing_rule)
next
  assume "getRules rules ''oclc_number'' = Inr None"
  then have "applyRule rec rules ''oclc_number'' = Inl NilPointerDereference"
    by (rule applyRule_missing)
  then have "marcToRecord rec rules lc cc = Inl NilPointerDereference"
    by (rule mtr_first_panic)
  then show "Generate (rules, err) lc cc (Decoded rec # mr) =
      \<lparr>sent = [], panicked = Some NilPointerDereference\<rparr>"
    by (simp add: Generate_def)
next
  show "Generate (rules, err) lc cc [] = \<lparr>sent = [], panicked = None\<rparr>"
    by (simp add: Generate_def)
qed

theorem missing_rule_found_per_record_witness:
  "getRules rulesWithoutNotes ''notes'' = Inr None \<and>
   ''notes'' \<in> set mapperLabels \<and>
   applyRule exampleRecord rulesWithoutNotes ''notes'' = Inl NilPointerDereference \<and>
   marcToRecord exampleRecord rulesWithoutNotes Map.empty Map.empty \<noteq>
     Inr (exampleDocument, None) \<and>
   getRules [] ''oclc_number'' = Inr None \<and>
   Generate ([], Some ''open rules.json: no such file or directory'') Map.empty Map.empty
     [Decoded exampleRecord] = \<lparr>sent = [], panicked = Some NilPointerDereference\<rparr>"
proof -
  have n: "getRules rulesWithoutNotes ''notes'' = Inr None"
    by (simp add: rulesWithoutNotes_def titleRules_missing)
  have l: "''notes'' \<in> set mapperLabels" by (simp add: mapperLabels_def)
  have o: "getRules [] ''oclc_number'' = Inr None" by simp
  from n l o
    missing_rule_found_per_record [where rules = rulesWithoutNotes and label = "''notes''"
      and rec = exampleRecord and lc = Map.empty and cc = Map.empty and d = exampleDocument]
    missing_rule_found_per_record [where rules = "[]" and rec = exampleRecord
      and err = "Some ''open rules.json: no such file or directory''"
      and lc = Map.empty and cc = Map.empty and mr = "[]"]
  show ?thesis by blast
qed

text \<open>
  The claim as stated fails on a ruleset that lacks the rule \<open>notes\<close>. A run over no
  records ends normally, a first record without a title is mapped (to the missing-title
  error) without the missing rule being noticed, and the second record, which has a
  title, ends the run with a nil-pointer panic.
\<close>

theorem missing_rule_startup_counterexample:
  "getRules rulesWithoutNotes ''notes'' = Inr None \<and>
   Generate (rulesWithoutNotes, None) Map.empty Map.empty [] = \<lparr>sent = [], panicked = None\<rparr> \<and>
   marcToRecord untitledRecord rulesWithoutNotes Map.empty Map.empty =
     Inr (emptyRecord\<lparr>Identifier := ''004'', Source := ''MIT Aleph'',
            SourceLink := ''https://library.mit.edu/item/004''\<rparr>,
          Some ''Record 004 has no title, check validity'') \<and>
   Generate (rulesWithoutNotes, None) Map.empty Map.empty
     [Decoded untitledRecord, Decoded exampleRecord] =
     \<lparr>sent = [], panicked = Some NilPointerDereference\<rparr>"
proof -
  have n: "getRules rulesWithoutNotes ''notes'' = Inr None"
    by (simp add: rulesWithoutNotes_def titleRules_missing)
  have u: "marcToRecord untitledRecord rulesWithoutNotes Map.empty Map.empty =
     Inr (emptyRecord\<lparr>Identifier := ''004'', Source := ''MIT Aleph'',
            SourceLink := ''https://library.mit.edu/item/004''\<rparr>,
          Some ''Record 004 has no title, check validity'')"
    unfolding rulesWithoutNotes_def by (rule example_untitled) (simp_all add: mapperLabels_def)
  have g: "Generate (rulesWithoutNotes, None) Map.empty Map.empty
     [Decoded untitledRecord, Decoded exampleRecord] =
     \<lparr>sent = [], panicked = Some NilPointerDereference\<rparr>"
    by (simp add: Generate_def u without_notes_example)
  from n u g show ?thesis by (simp add: Generate_def)
qed

text \<open>
  C3, as amended: for a field specification whose byte range \<open>start:length\<close> has a
  colon, the two components are read with \<open>Atoi\<close> and its error is discarded, so a
  component that is not a number counts as 0. A range without a colon panics with an
  index error as soon as the record has an occurrence. When every occurrence's concatenated
  string \<open>v\<close> satisfies \<open>0 \<le> start \<le> start+length \<le> len(v)\<close>, each occurrence yields exactly
  the bytes from \<open>start\<close> to \<open>start+length\<close>, never fewer. When some occurrence does not,
  field extraction panics with a slice-bounds error. Nothing recovers the panic: a
  record with a panicking rule application gives no document, and a panic of
  \<open>marcToRecord\<close> ends the run.
\<close>

theorem filter_byte_range:
  assumes "Field_Bytes fld \<noteq> []"
  shows
  "(2 \<le> length (Split (Field_Bytes fld) CHR '':'') \<longrightarrow>
      marc_filter rec (Some fld) =
        (if \<forall>f \<in> set (Filter rec (Field_Tag fld @ Field_Subfields fld)).
              inBounds (Join f '' '') (rangeBounds (Field_Bytes fld))
         then Inr (map (\<lambda>f. byteRange (Join f '' '') (rangeBounds (Field_Bytes fld)))
                     (Filter rec (Field_Tag fld @ Field_Subfields fld)))
         else Inl SliceBoundsOutOfRange)) \<and>
   (length (Split (Field_Bytes fld) CHR '':'') < 2 \<longrightarrow>
      marc_filter rec (Some fld) =
        (if Filter rec (Field_Tag fld @ Field_Subfields fld) = [] then Inr []
         else Inl IndexOutOfRange)) \<and>
   (inBounds v b \<longrightarrow> length (byteRange v b) = nat (snd b - fst b)) \<and>
   (snd (Atoi s) = Some ErrSyntax \<longrightarrow> fst (Atoi s) = 0) \<and>
   (0 \<le> a \<longrightarrow> 0 \<le> n \<longrightarrow> a + n < 2 ^ 63 \<longrightarrow> add_int64 a n = a + n) \<and>
   (applyRule rec rules label = Inl p \<longrightarrow> label \<in> set ruleLabels \<or> label = ''title'' \<longrightarrow>
      marcToRecord rec rules lc cc \<noteq> Inr (d, None)) \<and>
   (marcToRecord rec rules lc cc = Inl p \<longrightarrow>
      parse rules lc cc (Decoded rec # mr) = \<lparr>sent = [], panicked = Some p\<rparr>)"
proof (intro conjI impI)
  assume "2 \<le> length (Split (Field_Bytes fld) CHR '':'')"
  then show "marc_filter rec (Some fld) =
     (if \<forall>f \<in> set (Filter rec (Field_Tag fld @ Field_Subfields fld)).
           inBounds (Join f '' '') (rangeBounds (Field_Bytes fld))
      then Inr (map (\<lambda>f. byteRange (Join f '' '') (rangeBounds (Field_Bytes fld)))
                  (Filter rec (Field_Tag fld @ Field_Subfields fld)))
      else Inl SliceBoundsOutOfRange)"
    by (simp add: marc_filter_def filter_loop_range [OF assms])
next
  assume "length (Split (Field_Bytes fld) CHR '':'') < 2"
  then show "marc_filter rec (Some fld) =
     (if Filter rec (Field_Tag fld @ Field_Subfields fld) = [] then Inr []
      else Inl IndexOutOfRange)"
    using assms
    by (cases "Filter rec (Field_Tag fld @ Field_Subfields fld)")
       (simp_all add: marc_filter_def Let_def)
next
  assume "inBounds v b"
  then show "length (byteRange v b) = nat (snd b - fst b)" by (rule byteRange_length)
next
  assume "snd (Atoi s) = Some ErrSyntax"
  then show "fst (Atoi s) = 0" by (rule Atoi_syntax)
next
  assume "0 \<le> a" and "0 \<le> n" and "a + n < 2 ^ 63"
  then show "add_int64 a n = a + n" by (rule add_int64_small)
next
  assume "applyRule rec rules label = Inl p" and "label \<in> set ruleLabels \<or> label = ''title''"
  then show "marcToRecord rec rules lc cc \<noteq> Inr (d, None)" by (rule mtr_panicked_rule)
next
  assume "marcToRecord rec rules lc cc = Inl p"
  then show "parse rules lc cc (Decoded rec # mr) = \<lparr>sent = [], panicked = Some p\<rparr>"
    by (rule parse_panic)
qed

theorem filter_byte_range_witness:
  "Field_Bytes rangeField \<noteq> [] \<and> 2 \<le> length (Split (Field_Bytes rangeField) CHR '':'') \<and>
   rangeBounds (Field_Bytes rangeField) = (7, 11) \<and>
   marc_filter longRecord (Some rangeField) = Inr [''1985''] \<and>
   marc_filter shortRecord (Some rangeField) = Inl SliceBoundsOutOfRange"
proof -
  have b: "Field_Bytes rangeField \<noteq> []" by (simp add: rangeField_def)
  have c: "2 \<le> length (Split (Field_Bytes rangeField) CHR '':'')" by (simp add: rangeField_def)
  have r: "rangeBounds (Field_Bytes rangeField) = (7, 11)"
    by (simp add: rangeField_def rangeBounds_7_4)
  from filter_byte_range [OF b, of longRecord] filter_byte_range [OF b, of shortRecord] b c r
  show ?thesis
    by (simp add: rangeField_def longRecord_def shortRecord_def inBounds_def byteRange_def)
qed

text \<open>
  The claim as stated fails both ways. With the range 7:4 and the string abc, field
  extraction panics, and the run ends there: the record that follows is never sent.
  With the range x:y, whose components are not numbers, field extraction returns the
  empty string for the occurrence and no error.
\<close>

theorem filter_byte_range_counterexample:
  "marc_filter shortRecord (Some rangeField) = Inl SliceBoundsOutOfRange \<and>
   parse rangeRules Map.empty Map.empty [Decoded shortRecord, Decoded exampleRecord] =
     \<lparr>sent = [], panicked = Some SliceBoundsOutOfRange\<rparr> \<and>
   Atoi ''x'' = (0, Some ErrSyntax) \<and>
   marc_filter shortRecord (Some (rangeField\<lparr>Field_Bytes := ''x:y''\<rparr>)) = Inr [[]]"
proof -
  have "marc_filter shortRecord (Some (rangeField\<lparr>Field_Bytes := ''x:y''\<rparr>)) = Inr [[]]"
    by (simp add: marc_filter_def rangeField_def shortRecord_def filter_loop_range
        rangeBounds_x_y inBounds_def byteRange_def del: filter_loop.simps)
  with short_panics short_run Atoi_x show ?thesis
    by (intro conjI)
qed

text \<open>
  C4: the values that the field specifications of a rule yield, one after the other,
  are collected with exact-string de-duplication in the order of first appearance.
  When the specifications yield the lists \<open>yss\<close>, the result is \<open>concat yss\<close> with every
  value kept once, at its first occurrence: it has no duplicates, it has the same
  values, what a longer input adds comes after what is already listed, and the values
  a, b, a give a, b.
\<close>

theorem extractData_first_seen:
  "map (marc_filter rec) (Rule_Fields rule) = map Inr yss \<Longrightarrow>
   extractData (Some rule) rec = Inr (dedupFirst (concat yss)) \<and>
   distinct (dedupFirst (concat yss)) \<and>
   set (dedupFirst (concat yss)) = set (concat yss) \<and>
   dedupFirst (concat yss) = rev (remdups (rev (concat yss))) \<and>
   dedupFirst (xs @ zs) = dedupFirst xs @ filter (\<lambda>z. z \<notin> set xs) (dedupFirst zs) \<and>
   dedupFirst [''a'', ''b'', ''a''] = [''a'', ''b'']"
proof -
  assume "map (marc_filter rec) (Rule_Fields rule) = map Inr yss"
  then have "extractData_loop (Rule_Fields rule) rec [] = Inr (dedupFirst ([] @ concat yss))"
    by (rule extractData_loop_eq) simp
  then have "extractData (Some rule) rec = Inr (dedupFirst (concat yss))"
    by (simp add: extractData_def)
  moreover have "dedupFirst (concat yss) = rev (remdups (rev (concat yss)))"
    by (rule dedupFirst_rev_remdups)
  moreover have "dedupFirst (xs @ zs) = dedupFirst xs @ filter (\<lambda>z. z \<notin> set xs) (dedupFirst zs)"
    by (rule dedupFirst_append)
  ultimately show ?thesis
    by (simp add: distinct_dedupFirst set_dedupFirst)
qed

theorem extractData_first_seen_witness:
  "map (marc_filter creatorsRecord) (Rule_Fields creatorsRule) =
     map Inr [[''a'', ''b''], [''a'']] \<and>
   extractData (Some creatorsRule) creatorsRecord = Inr [''a'', ''b'']"
proof -
  have h: "map (marc_filter creatorsRecord) (Rule_Fields creatorsRule) =
      map Inr [[''a'', ''b''], [''a'']]"
    by (simp add: creatorsRule_def creatorsRecord_def marc_filter_def Let_def)
  from extractData_first_seen [OF h, where xs = "[]" and zs = "[]"] h show ?thesis by simp
qed

text \<open>
  C5: the holdings of the document are those of the primary tag family 866 when it
  yields at least one holding, and those of the fallback family 852 when the primary
  yields none. When the record has a field of the primary family, what the decoder
  would answer for the fallback family has no influence on the result: the fallback
  is not consulted.
\<close>

theorem holdings_primary_then_fallback:
  "marcToRecord rec rules lc cc = Inr (d, None) \<Longrightarrow>
   (\<exists>primary fallback.
      primaryHoldings rec = Inr primary \<and> fallbackHoldings rec = Inr fallback \<and>
      length primary = length (DataField rec ''866'') \<and>
      length fallback = length (DataField rec ''852'') \<and>
      Holdings d = (if primary = [] then fallback else primary)) \<and>
   (DataField rec ''866'' \<noteq> [] \<longrightarrow>
      marcToRecord (rec\<lparr>DataField := (DataField rec)(''852'' := other)\<rparr>) rules lc cc =
        Inr (d, None))"
proof -
  assume m: "marcToRecord rec rules lc cc = Inr (d, None)"
  have p: "primaryHoldings rec =
      Inr (map (holdingOf ''866'' [''b'', ''c'', ''h'', ''a'', ''z'']) (DataField rec ''866''))"
    by (simp add: primaryHoldings_def getHoldings_866)
  have f: "fallbackHoldings rec =
      Inr (map (holdingOf ''852'' [''b'', ''c'', ''h'', ''a'', ''z'', ''k'']) (DataField rec ''852''))"
    by (simp add: fallbackHoldings_def getHoldings_852)
  have h: "Holdings d = docHoldings rec" using m by (rule mtr_holdings_of)
  have "\<exists>primary fallback.
      primaryHoldings rec = Inr primary \<and> fallbackHoldings rec = Inr fallback \<and>
      length primary = length (DataField rec ''866'') \<and>
      length fallback = length (DataField rec ''852'') \<and>
      Holdings d = (if primary = [] then fallback else primary)"
    unfolding p f h by (simp add: docHoldings_def)
  moreover have "marcToRecord (rec\<lparr>DataField := (DataField rec)(''852'' := other)\<rparr>) rules lc cc =
        Inr (d, None)" if "DataField rec ''866'' \<noteq> []"
    using mtr_fallback_unused [OF that] m by simp
  ultimately show ?thesis by blast
qed

theorem holdings_primary_then_fallback_witness:
  "DataField holdingsRecord ''866'' \<noteq> [] \<and> DataField fallbackRecord ''866'' = [] \<and>
   (\<exists>d. marcToRecord holdingsRecord exampleRules Map.empty Map.empty = Inr (d, None) \<and>
      Holdings d =
        [\<lparr>Holding_Location = ''Hayden Library'', Holding_Collection = ''Stacks'',
          Holding_CallNumber = [], Holding_Summary = ''v.1-3'', Holding_Notes = [],
          Holding_Format = ''Print volume''\<rparr>] \<and>
      marcToRecord (holdingsRecord\<lparr>DataField := (DataField holdingsRecord)(''852'' := [])\<rparr>)
        exampleRules Map.empty Map.empty = Inr (d, None)) \<and>
   (\<exists>d. marcToRecord fallbackRecord exampleRules Map.empty Map.empty = Inr (d, None) \<and>
      Holdings d =
        [\<lparr>Holding_Location = ''Lewis Music Library'', Holding_Collection = [],
          Holding_CallNumber = [], Holding_Summary = [], Holding_Notes = [],
          Holding_Format = ''Compact disc''\<rparr>])"
proof -
  have e: "marcToRecord (exampleRecord\<lparr>DataField := g\<rparr>) exampleRules Map.empty Map.empty =
      Inr (builtRecord (exampleRecord\<lparr>DataField := g\<rparr>) Map.empty Map.empty [] [] [''A title'']
             [] [] [] [] [] [] [] [] [] [] [] [] [] [] [] [] [] [] [] [] [] [] []
             (docHoldings (exampleRecord\<lparr>DataField := g\<rparr>)), None)" for g
    unfolding exampleRules_def
    by (rule mtr_success_intro)
       (simp_all add: titleRules_other titleRules_title titleRules_contributors
          titleRules_related_items mapperLabels_def exampleRecord_def)
  have h: "marcToRecord holdingsRecord exampleRules Map.empty Map.empty =
      Inr (builtRecord holdingsRecord Map.empty Map.empty [] [] [''A title'']
             [] [] [] [] [] [] [] [] [] [] [] [] [] [] [] [] [] [] [] [] [] [] []
             (docHoldings holdingsRecord), None)"
    unfolding holdingsRecord_def by (rule e)
  have f: "marcToRecord fallbackRecord exampleRules Map.empty Map.empty =
      Inr (builtRecord fallbackRecord Map.empty Map.empty [] [] [''A title'']
             [] [] [] [] [] [] [] [] [] [] [] [] [] [] [] [] [] [] [] [] [] [] []
             (docHoldings fallbackRecord), None)"
    unfolding fallbackRecord_def holdingsRecord_def by (simp add: e)
  have n: "DataField holdingsRecord ''866'' \<noteq> []" by (simp add: holdingsRecord_def)
  from holdings_primary_then_fallback [OF h, of "[]"] n
  have 1: "marcToRecord (holdingsRecord\<lparr>DataField := (DataField holdingsRecord)(''852'' := [])\<rparr>)
        exampleRules Map.empty Map.empty =
      Inr (builtRecord holdingsRecord Map.empty Map.empty [] [] [''A title'']
             [] [] [] [] [] [] [] [] [] [] [] [] [] [] [] [] [] [] [] [] [] [] []
             (docHoldings holdingsRecord), None)"
    by blast
  have 2: "docHoldings holdingsRecord =
      [\<lparr>Holding_Location = ''Hayden Library'', Holding_Collection = ''Stacks'',
        Holding_CallNumber = [], Holding_Summary = ''v.1-3'', Holding_Notes = [],
        Holding_Format = ''Print volume''\<rparr>]"
    by (simp add: docHoldings_def holdingsRecord_def holdingOf_def lookupLocation_def
        lookupCollection_def)
  have 3: "docHoldings fallbackRecord =
      [\<lparr>Holding_Location = ''Lewis Music Library'', Holding_Collection = [],
        Holding_CallNumber = [], Holding_Summary = [], Holding_Notes = [],
        Holding_Format = ''Compact disc''\<rparr>]"
    by (simp add: docHoldings_def fallbackRecord_def holdingsRecord_def holdingOf_def
        lookupLocation_def lookupCollection_def lookupFormat_def)
  have 4: "DataField fallbackRecord ''866'' = []" by (simp add: fallbackRecord_def)
  from h f 1 2 3 show ?thesis by (simp add: builtRecord_def n 4)
qed

text \<open>
  C6, as amended: a code that the table does not list passes through \<open>lookupLocation\<close>
  and \<open>lookupCollection\<close> unchanged. \<open>lookupFormat\<close> does not pass codes through: a code
  it does not list becomes Print volume, and when the location is Internet Resource
  every code becomes the empty string.
\<close>

theorem lookup_unlisted_codes:
  "(x \<notin> set locationCodes \<longrightarrow> lookupLocation x = x) \<and>
   (x \<notin> set collectionCodes \<longrightarrow> lookupCollection x loc = x) \<and>
   (x \<notin> set formatCodes \<longrightarrow> loc \<noteq> ''Internet Resource'' \<longrightarrow>
      lookupFormat loc x = ''Print volume'') \<and>
   lookupFormat ''Internet Resource'' x = ''''"
  by (simp add: locationCodes_def lookupLocation_def collectionCodes_def lookupCollection_def
        formatCodes_def lookupFormat_def)

theorem lookup_unlisted_codes_witness:
  "''XYZ'' \<notin> set locationCodes \<and> lookupLocation ''XYZ'' = ''XYZ'' \<and>
   ''XYZ'' \<notin> set collectionCodes \<and> lookupCollection ''XYZ'' ''HUM'' = ''XYZ'' \<and>
   ''XYZ'' \<notin> set formatCodes \<and> lookupFormat ''HUM'' ''XYZ'' = ''Print volume'' \<and>
   lookupFormat ''Internet Resource'' ''XYZ'' = ''''"
  using lookup_unlisted_codes [of "''XYZ''" "''HUM''"]
  by (simp add: locationCodes_def collectionCodes_def formatCodes_def)

text \<open>
  The claim as stated fails for \<open>lookupFormat\<close>: the unlisted code XYZ at the location
  Hayden Library comes back as Print volume.
\<close>

theorem lookupFormat_passthrough_counterexample:
  "''XYZ'' \<notin> set formatCodes \<and> lookupFormat ''Hayden Library'' ''XYZ'' = ''Print volume'' \<and>
   \<not> (\<forall>loc x. x \<notin> set formatCodes \<longrightarrow> lookupFormat loc x = x)"
proof -
  have a: "''XYZ'' \<notin> set formatCodes" by (simp add: formatCodes_def)
  have b: "lookupFormat ''Hayden Library'' ''XYZ'' = ''Print volume''"
    by (simp add: lookupFormat_def)
  have c: "\<not> (\<forall>loc x. x \<notin> set formatCodes \<longrightarrow> lookupFormat loc x = x)"
  proof
    assume h: "\<forall>loc x. x \<notin> set formatCodes \<longrightarrow> lookupFormat loc x = x"
    have "lookupFormat ''Hayden Library'' ''XYZ'' = ''XYZ''"
      using h [rule_format, OF a, of "''Hayden Library''"] .
    with b show False by simp
  qed
  from a b c show ?thesis by (intro conjI)
qed

text \<open>
  C7, as amended: \<open>TranslateCodes\<close> returns one output per input code, in the same
  order and of the same length. A code whose table entry is a non-empty label is
  replaced by the label; a code that is not in the table, or whose entry is the empty
  string, is passed through unchanged. With the table eng to English, the codes eng,
  xyz give English, xyz.
\<close>

theorem TranslateCodes_one_per_code:
  "length (TranslateCodes cs m) = length cs \<and>
   TranslateCodes cs m =
     map (\<lambda>c. case m c of None \<Rightarrow> c | Some name \<Rightarrow> if name \<noteq> '''' then name else c) cs \<and>
   TranslateCodes [''eng'', ''xyz''] [''eng'' \<mapsto> ''English''] = [''English'', ''xyz'']"
  by (simp add: TranslateCodes_eq mapIndex_def split: option.split)

theorem TranslateCodes_one_per_code_witness:
  "length (TranslateCodes [''fre'', ''eng'', ''fre''] [''eng'' \<mapsto> ''English'']) = 3 \<and>
   TranslateCodes [''fre'', ''eng'', ''fre''] [''eng'' \<mapsto> ''English''] =
     [''fre'', ''English'', ''fre'']"
  using TranslateCodes_one_per_code [of "[''fre'', ''eng'', ''fre'']" "[''eng'' \<mapsto> ''English'']"]
  by simp

text \<open>
  The claim as stated fails for a code that the table maps to the empty string: the
  code is in the table, and is passed through instead of being replaced by its label.
\<close>

theorem TranslateCodes_label_counterexample:
  "TranslateCodes [''eng''] [''eng'' \<mapsto> ''''] = [''eng''] \<and>
   \<not> (\<forall>cs m. TranslateCodes cs m = map (\<lambda>c. case m c of None \<Rightarrow> c | Some name \<Rightarrow> name) cs)"
proof -
  have a: "TranslateCodes [''eng''] [''eng'' \<mapsto> ''''] = [''eng'']"
    by (simp add: TranslateCodes_eq mapIndex_def)
  have "TranslateCodes [''eng''] [''eng'' \<mapsto> ''''] \<noteq>
        map (\<lambda>c. case [''eng'' \<mapsto> ''''] c of None \<Rightarrow> c | Some name \<Rightarrow> name) [''eng'']"
    by (simp add: TranslateCodes_eq mapIndex_def)
  then have "\<not> (\<forall>cs m. TranslateCodes cs m =
      map (\<lambda>c. case m c of None \<Rightarrow> c | Some name \<Rightarrow> name) cs)"
    by blast
  with a show ?thesis by simp
qed



text \<open>
  C9: the content-type mapping is defined on every one of the 256 byte values. The
  bytes c and d give Musical score, e and f Cartographic material, g Moving image,
  i and j Sound recording, k Still image, m Computer file, o Kit, p Mixed materials,
  r Object, and every byte outside these twelve gives Text. Both copies of the switch
  (package main and package marc) agree.
\<close>

theorem contentType_total:
  "contentType CHR ''c'' = ''Musical score'' \<and> contentType CHR ''d'' = ''Musical score'' \<and>
   contentType CHR ''e'' = ''Cartographic material'' \<and>
   contentType CHR ''f'' = ''Cartographic material'' \<and>
   contentType CHR ''g'' = ''Moving image'' \<and>
   contentType CHR ''i'' = ''Sound recording'' \<and> contentType CHR ''j'' = ''Sound recording'' \<and>
   contentType CHR ''k'' = ''Still image'' \<and> contentType CHR ''m'' = ''Computer file'' \<and>
   contentType CHR ''o'' = ''Kit'' \<and> contentType CHR ''p'' = ''Mixed materials'' \<and>
   contentType CHR ''r'' = ''Object'' \<and>
   (x \<notin> set contentCodes \<longrightarrow> contentType x = ''Text'') \<and>
   parsers_contentType x = contentType x \<and>
   card (UNIV :: byte set) = 256"
  by (simp add: contentType_def parsers_contentType_def contentCodes_def card_UNIV_char)

theorem contentType_total_witness:
  "CHR ''a'' \<notin> set contentCodes \<and> contentType CHR ''a'' = ''Text'' \<and>
   CHR 0xC8 \<notin> set contentCodes \<and> contentType (CHR 0xC8) = ''Text'' \<and>
   parsers_contentType (CHR 0xC8) = ''Text''"
  using contentType_total [of "CHR ''a''"] contentType_total [of "CHR 0xC8"]
  by (simp add: contentCodes_def)

text \<open>
  C10: \<open>TranslateCodes\<close> tells table entries apart only by the label being non-empty.
  A code that the table maps to the empty string is passed through unchanged, the
  result is the same as with that entry removed from the table, and an output is the
  empty string only where the input code is the empty string.
\<close>

theorem TranslateCodes_empty_label:
  "(m c = Some '''' \<longrightarrow> TranslateCodes [c] m = [c]) \<and>
   TranslateCodes cs m = TranslateCodes cs (\<lambda>c. if m c = Some '''' then None else m c) \<and>
   (i < length cs \<longrightarrow> TranslateCodes cs m ! i = '''' \<longrightarrow> cs ! i = '''')"
  by (auto simp add: TranslateCodes_eq mapIndex_def split: option.splits)

theorem TranslateCodes_empty_label_witness:
  "[''eng'' \<mapsto> ''''] ''eng'' = Some '''' \<and>
   TranslateCodes [''eng''] [''eng'' \<mapsto> ''''] = [''eng''] \<and>
   (0::nat) < length [''''] \<and> TranslateCodes [''''] [''eng'' \<mapsto> ''''] ! 0 = ''''"
  using TranslateCodes_empty_label [of "[''eng'' \<mapsto> '''']" "''eng''" "['''']" 0]
  by (simp add: TranslateCodes_eq mapIndex_def)

end
